theory Spec2Isabelle
  imports Complex_Main
begin

section \<open>A model of the vmaker job orchestrator\<close>

text \<open>
  The repository holds two variants of one server, \<^verbatim>\<open>src/server.py\<close> (threads) and
  \<^verbatim>\<open>src/static/app.py\<close> (asyncio), and the helpers of
  \<^verbatim>\<open>src/static/utils/video_tools.py\<close>. Each function below is a translation of the
  Python function of the same name; where both variants define a function under one name,
  the one of \<^verbatim>\<open>app.py\<close> carries the prefix \<open>app_\<close>.

  Conventions of the translation.
  \<^item> Python floats are modelled by exact rationals (\<^typ>\<open>rat\<close>); the one place where the
    binary rounding of a product decides an integer result (\<open>int(fontsize * 1.4)\<close>) is
    modelled bit for bit.
  \<^item> Strings are lists of bytes; \<open>str.lower\<close>, \<open>\d\<close> and \<open>int()\<close> are modelled on
    ASCII.
  \<^item> Everything a handler learns from outside the process (whether a file exists, the lines
    ffmpeg writes, exit codes, whether a copy fails) is a field of the record \<open>world\<close>
    that the handler receives.
  \<^item> An exception is a value: its message, as \<open>str(e)\<close> gives it.
\<close>

subsection \<open>Numbers\<close>

text \<open>
  \<open>round(x)\<close> of Python rounds to the nearest integer and a tie to the even one;
  \<open>round(x, 2)\<close> does so at the second decimal.
\<close>

definition py_round :: "rat \<Rightarrow> int" where
  "py_round x =
     (let f = \<lfloor>x\<rfloor>; d = x - of_int f
      in if d < 1 / 2 then f else if 1 / 2 < d then f + 1 else if even f then f else f + 1)"

definition round2 :: "rat \<Rightarrow> rat" where
  "round2 x = of_int (py_round (x * 100)) / 100"

text \<open>
  IEEE 754 doubles carry 53 significant bits. For a positive rational \<open>n / 2 ^ 52\<close>,
  \<open>double_shift n\<close> is the number of low bits of \<open>n\<close> beyond those 53, and
  \<open>round_to_double n\<close> is the numerator, again over \<open>2 ^ 52\<close>, of the nearest double:
  the low bits are rounded off, a tie going to the even significand. Overflow and
  subnormal numbers are out of reach of the values below.
\<close>

function double_shift :: "int \<Rightarrow> nat" where
  "double_shift n = (if n < 2 ^ 53 then 0 else Suc (double_shift (n div 2)))"
  by pat_completeness auto
termination
  by (relation "measure nat") auto

definition round_to_double :: "int \<Rightarrow> int" where
  "round_to_double n =
     (let k = double_shift n; q = n div 2 ^ k; r = n mod 2 ^ k
      in (if 2 ^ k < 2 * r \<or> (2 * r = 2 ^ k \<and> odd q) then q + 1 else q) * 2 ^ k)"

text \<open>
  The double nearest to \<open>1.4\<close> is \<open>6305039478318694 / 2 ^ 52\<close>. \<open>int(fontsize * 1.4)\<close>,
  for an integer \<open>fontsize\<close>, converts it to a double (exactly, below \<open>2 ^ 53\<close>),
  multiplies with one rounding and truncates towards zero.
\<close>

definition times_1_4_truncated :: "int \<Rightarrow> int" where
  "times_1_4_truncated fontsize =
     sgn fontsize * (round_to_double (\<bar>fontsize\<bar> * 6305039478318694) div 2 ^ 52)"

subsection \<open>Strings and the elapsed-time marker of ffmpeg\<close>

definition is_digit :: "char \<Rightarrow> bool" where
  "is_digit c = (48 \<le> (of_char c :: nat) \<and> (of_char c :: nat) \<le> 57)"

definition digits_value :: "string \<Rightarrow> nat" where
  "digits_value s = foldl (\<lambda>a c. 10 * a + (of_char c - 48)) 0 s"

text \<open>
  \<open>int(s)\<close> and \<open>float(s)\<close> on the strings the regular expression below can hand them:
  decimal digits, and for \<open>float\<close> one optional point. \<open>None\<close> is \<open>ValueError\<close>.
  Python accepts further spellings (a sign, blanks around the number, underscores, an
  exponent); they are not modelled.
\<close>

definition py_int :: "string \<Rightarrow> int option" where
  "py_int s = (if s \<noteq> [] \<and> list_all is_digit s then Some (int (digits_value s)) else None)"

definition py_float :: "string \<Rightarrow> rat option" where
  "py_float s =
     (let ip = takeWhile is_digit s
      in case dropWhile is_digit s of
           [] \<Rightarrow> if ip = [] then None else Some (of_nat (digits_value ip))
         | c # fr \<Rightarrow>
             if c = CHR ''.'' \<and> list_all is_digit fr \<and> (ip \<noteq> [] \<or> fr \<noteq> [])
             then Some (of_nat (digits_value ip) + of_nat (digits_value fr) / 10 ^ length fr)
             else None)"

text \<open>\<open>s.split(sep)\<close> for a separator of one character.\<close>

fun split :: "char \<Rightarrow> string \<Rightarrow> string list" where
  "split sep [] = [[]]"
| "split sep (c # cs) =
     (if c = sep then [] # split sep cs
      else case split sep cs of p # ps \<Rightarrow> (c # p) # ps | [] \<Rightarrow> [[c]])"

text \<open>
  \<open>ffmpeg_time_to_secs\<close>: a missing part (\<open>IndexError\<close>) and a part that does not parse
  (\<open>ValueError\<close>) both end in the \<open>except\<close> branch, which returns \<open>0.0\<close>.
\<close>

definition ffmpeg_time_to_secs :: "string \<Rightarrow> rat" where
  "ffmpeg_time_to_secs timestr =
     (case split CHR '':'' timestr of
        p0 # p1 # p2 # _ \<Rightarrow>
          (case (py_int p0, py_int p1, py_float p2) of
             (Some h, Some m, Some s) \<Rightarrow> of_int h * 3600 + of_int m * 60 + s
           | _ \<Rightarrow> 0)
      | _ \<Rightarrow> 0)"

definition startswith :: "string \<Rightarrow> string \<Rightarrow> bool" where
  "startswith s p = (take (length p) s = p)"

text \<open>\<open>sub in s\<close>\<close>

fun contains :: "string \<Rightarrow> string \<Rightarrow> bool" where
  "contains sub [] = (sub = [])"
| "contains sub (c # cs) = (startswith (c # cs) sub \<or> contains sub cs)"

text \<open>
  The regular expression \<^verbatim>\<open>time=(\d+:\d+:\d+\.\d+)\<close>. \<open>digits_then\<close> matches \<^verbatim>\<open>\d+\<close>
  followed by one given character: the run of digits is taken whole, since a shorter run
  would have a digit where the character must stand. \<open>match_time\<close> matches the
  expression at the start of a string and returns group 1; \<open>re_search_time\<close> is
  \<open>re.search\<close>, the match at the leftmost position that has one.
\<close>

definition digits_then :: "char \<Rightarrow> string \<Rightarrow> (string \<times> string) option" where
  "digits_then sep s =
     (case (takeWhile is_digit s, dropWhile is_digit s) of
        (d, c # rest) \<Rightarrow> if d \<noteq> [] \<and> c = sep then Some (d, rest) else None
      | (d, []) \<Rightarrow> None)"

definition match_time :: "string \<Rightarrow> string option" where
  "match_time s =
     (if startswith s ''time='' then
        (case digits_then CHR '':'' (drop 5 s) of
           None \<Rightarrow> None
         | Some (h, r1) \<Rightarrow>
             (case digits_then CHR '':'' r1 of
                None \<Rightarrow> None
              | Some (m, r2) \<Rightarrow>
                  (case digits_then CHR ''.'' r2 of
                     None \<Rightarrow> None
                   | Some (sec, r3) \<Rightarrow>
                       (let fr = takeWhile is_digit r3
                        in if fr = [] then None
                           else Some (h @ '':'' @ m @ '':'' @ sec @ ''.'' @ fr)))))
      else None)"

fun re_search_time :: "string \<Rightarrow> string option" where
  "re_search_time [] = None"
| "re_search_time (c # cs) =
     (case match_time (c # cs) of Some g \<Rightarrow> Some g | None \<Rightarrow> re_search_time cs)"

text \<open>
  What the reading loops of the clip handlers do with one line of ffmpeg's diagnostic
  output: \<^verbatim>\<open>if "time=" in line: m = re.search(...); if m: secs = ffmpeg_time_to_secs(m.group(1))\<close>.
\<close>

definition line_secs :: "string \<Rightarrow> rat option" where
  "line_secs line =
     (if contains ''time='' line then map_option ffmpeg_time_to_secs (re_search_time line)
      else None)"

text \<open>
  \<^verbatim>\<open>prog = (secs / duration) * 100.0\<close> and the value written to the job,
  \<^verbatim>\<open>round(min(100.0, prog), 2)\<close>; the division raises \<open>ZeroDivisionError\<close> for a zero
  duration.
\<close>

definition percent :: "rat \<Rightarrow> rat \<Rightarrow> rat" where
  "percent secs duration = round2 (min 100 (secs / duration * 100))"

definition percent_of :: "rat \<Rightarrow> rat \<Rightarrow> string + rat" where
  "percent_of secs duration =
     (if duration = 0 then Inl ''float division by zero'' else Inr (percent secs duration))"

text \<open>The outcome of one line, for a known duration: nothing, a raise, or a value to write.\<close>

definition line_percent :: "string \<Rightarrow> rat \<Rightarrow> (string + rat) option" where
  "line_percent line duration = map_option (\<lambda>secs. percent_of secs duration) (line_secs line)"

text \<open>
  The specification words the same computation as a fraction,
  \<^verbatim>\<open>min(1.0, elapsed / totalDurationSeconds)\<close>, and \<open>0.0\<close> for a total that is not
  positive. The code has no function of that shape, only the percentage above; this is the
  fraction over the code's own parsing of the line.
\<close>

definition progress_fraction :: "string \<Rightarrow> rat \<Rightarrow> rat option" where
  "progress_fraction line total_duration =
     map_option (\<lambda>secs. if total_duration \<le> 0 then 0 else min 1 (secs / total_duration))
       (line_secs line)"

subsection \<open>Stacking the text overlays of a template (\<^verbatim>\<open>app.py\<close>, \<open>do_template_clip\<close>)\<close>

text \<open>
  Of a text overlay (an entry of \<^verbatim>\<open>template["texts"]\<close>) the layout reads the keys
  \<^verbatim>\<open>y\<close>, a string, and \<^verbatim>\<open>fontsize\<close>, an integer; either may be absent. The other
  keys only feed the \<^verbatim>\<open>drawtext\<close> string and are left to the record's extension.
\<close>

record text_overlay =
  txt_y :: "string option"
  txt_fontsize :: "int option"

definition lower :: "string \<Rightarrow> string" where
  "lower s =
     map (\<lambda>c. if 65 \<le> (of_char c :: nat) \<and> (of_char c :: nat) \<le> 90
               then char_of (of_char c + 32 :: nat) else c) s"

definition PORTRAIT_H :: int where "PORTRAIT_H = 1920"

definition SAFE_TOP :: int where "SAFE_TOP = 120"

definition SAFE_BOTTOM :: int where "SAFE_BOTTOM = 120"

definition SAFE_CENTER :: int where "SAFE_CENTER = PORTRAIT_H div 2"

record stacks =
  bottom_stack :: int
  center_stack :: int
  top_stack :: int

text \<open>The three counters as the handler initialises them.\<close>

definition no_stacks :: stacks where
  "no_stacks = \<lparr>bottom_stack = 0, center_stack = 0, top_stack = 0\<rparr>"

text \<open>\<^verbatim>\<open>estimated_h = int(txt.get("fontsize", 50) * 1.4)\<close>\<close>

definition estimated_h :: "'a text_overlay_scheme \<Rightarrow> int" where
  "estimated_h t = times_1_4_truncated (case txt_fontsize t of Some f \<Rightarrow> f | None \<Rightarrow> 50)"

text \<open>
  One pass of the loop body, from \<^verbatim>\<open>pos = txt.get("y", "").lower()\<close> to the end of the
  \<open>if\<close> chain: the value of \<open>auto_y\<close> and the counters afterwards.
\<close>

definition place :: "'a text_overlay_scheme \<Rightarrow> stacks \<Rightarrow> int \<times> stacks" where
  "place t s =
     (let pos = lower (case txt_y t of Some p \<Rightarrow> p | None \<Rightarrow> []);
          estimated = estimated_h t
      in if contains ''top'' pos then
           (SAFE_TOP + top_stack s, s\<lparr>top_stack := top_stack s + (estimated + 40)\<rparr>)
         else if contains ''mid'' pos \<or> contains ''center'' pos then
           (SAFE_CENTER + center_stack s, s\<lparr>center_stack := center_stack s + (estimated + 40)\<rparr>)
         else if contains ''bottom'' pos then
           (PORTRAIT_H - SAFE_BOTTOM - bottom_stack s - estimated,
            s\<lparr>bottom_stack := bottom_stack s + (estimated + 40)\<rparr>)
         else
           (PORTRAIT_H - SAFE_BOTTOM - bottom_stack s - estimated,
            s\<lparr>bottom_stack := bottom_stack s + (estimated + 40)\<rparr>))"

text \<open>The loop over the overlays: the \<open>auto_y\<close> of each, in order.\<close>

fun stack_texts :: "'a text_overlay_scheme list \<Rightarrow> stacks \<Rightarrow> int list" where
  "stack_texts [] s = []"
| "stack_texts (t # ts) s = (case place t s of (auto_y, s') \<Rightarrow> auto_y # stack_texts ts s')"

text \<open>
  For stating the layout in closed form: the anchor the \<open>if\<close> chain gives an overlay, and
  the room the overlays of one anchor take among a list of earlier overlays.
\<close>

datatype anchor = Top | Center | Bottom

definition anchor_of :: "'a text_overlay_scheme \<Rightarrow> anchor" where
  "anchor_of t =
     (let pos = lower (case txt_y t of Some p \<Rightarrow> p | None \<Rightarrow> [])
      in if contains ''top'' pos then Top
         else if contains ''mid'' pos \<or> contains ''center'' pos then Center
         else Bottom)"

definition taken :: "anchor \<Rightarrow> 'a text_overlay_scheme list \<Rightarrow> int" where
  "taken a ts = sum_list (map (\<lambda>t. estimated_h t + 40) (filter (\<lambda>t. anchor_of t = a) ts))"

subsection \<open>Jobs\<close>

text \<open>
  A job is the dictionary that \<open>create_job\<close> stores in the global table \<open>jobs\<close>. The
  status is one of four strings, here a datatype; \<open>result\<close> is a dictionary of strings or
  \<open>None\<close>; the key \<^verbatim>\<open>id\<close> is the field \<open>ident\<close>. The time stamps \<^verbatim>\<open>created_at\<close> and
  \<^verbatim>\<open>updated_at\<close> are left out: nothing below reads them. The type of \<open>meta\<close> is a
  parameter, since every kind of job has its own keys. The identifier, \<open>uuid.uuid4()\<close> in
  the source, is an argument.
\<close>

datatype status = Queued | Running | Finished | Error

record 'm job =
  ident :: string
  kind :: string
  meta :: 'm
  status :: status
  progress :: rat
  result :: "(string \<times> string) list option"
  error :: "string option"

definition new_job :: "string \<Rightarrow> 'm \<Rightarrow> string \<Rightarrow> 'm job" where
  "new_job k m uuid =
     \<lparr>ident = uuid, kind = k, meta = m, status = Queued, progress = 0,
      result = None, error = None\<rparr>"

definition create_job :: "(string \<rightharpoonup> 'm job) \<Rightarrow> string \<Rightarrow> 'm \<Rightarrow> string \<Rightarrow> (string \<rightharpoonup> 'm job)" where
  "create_job jobs k m uuid = jobs(uuid \<mapsto> new_job k m uuid)"

subsection \<open>What a handler does, and what it is told\<close>

text \<open>
  A handler works on one entry of the table, \<open>jobs[job_id]\<close>, and on the outside world.
  Its model takes that entry and returns it as the handler leaves it, together with the
  events in program order (what \<open>push_job_update\<close> and \<open>socketio.emit\<close> send, the
  process started, the process killed, the file copied) and the message of the exception
  that escapes the handler, if one does.
\<close>

datatype arg = Str string | Num rat

datatype 'm event =
    Job_update "'m job"
  | Emit string rat
  | Popen "arg list"
  | Kill
  | Copied string string
  | Transcript_segment rat rat string

type_synonym 'm st = "'m job \<times> 'm event list"

record 'm run =
  final :: "'m job"
  events :: "'m event list"
  raised :: "string option"

definition returned :: "'m st \<Rightarrow> 'm run" where
  "returned st = \<lparr>final = fst st, events = snd st, raised = None\<rparr>"

definition escaped :: "string \<Rightarrow> 'm st \<Rightarrow> 'm run" where
  "escaped e st = \<lparr>final = fst st, events = snd st, raised = Some e\<rparr>"

text \<open>Statements in sequence.\<close>

definition seq :: "('s \<Rightarrow> 's) list \<Rightarrow> 's \<Rightarrow> 's" where
  "seq steps s = fold (\<lambda>step. step) steps s"

definition set_status :: "status \<Rightarrow> 'm st \<Rightarrow> 'm st" where
  "set_status v st = ((fst st)\<lparr>status := v\<rparr>, snd st)"

definition set_progress :: "rat \<Rightarrow> 'm st \<Rightarrow> 'm st" where
  "set_progress v st = ((fst st)\<lparr>progress := v\<rparr>, snd st)"

definition set_result :: "(string \<times> string) list \<Rightarrow> 'm st \<Rightarrow> 'm st" where
  "set_result v st = ((fst st)\<lparr>result := Some v\<rparr>, snd st)"

definition set_error :: "string \<Rightarrow> 'm st \<Rightarrow> 'm st" where
  "set_error v st = ((fst st)\<lparr>error := Some v\<rparr>, snd st)"

definition log_event :: "'m event \<Rightarrow> 'm st \<Rightarrow> 'm st" where
  "log_event e st = (fst st, snd st @ [e])"

definition push_job_update :: "'m st \<Rightarrow> 'm st" where
  "push_job_update st = log_event (Job_update (fst st)) st"

text \<open>\<^verbatim>\<open>socketio.emit(name, {"job_id": job_id, "progress": jobs[job_id]["progress"]})\<close>\<close>

definition emit_progress :: "string \<Rightarrow> 'm st \<Rightarrow> 'm st" where
  "emit_progress name st = log_event (Emit name (progress (fst st))) st"

text \<open>
  The world of one execution. A field that a handler does not consult is of no
  consequence to it.
\<close>

datatype hook =
    Downloading (total_bytes: "rat option") (total_bytes_estimate: "rat option")
      (downloaded_bytes: "rat option")
  | Hook_finished
  | Hook_other

record segment =
  seg_start :: "rat option"
  seg_end :: "rat option"
  seg_text :: string

record world =
  input_exists :: bool                \<comment> \<open>\<open>os.path.exists\<close> of the input file\<close>
  outpath :: string                   \<comment> \<open>the output path, built from names and the clock\<close>
  popen_error :: "string option"      \<comment> \<open>\<open>subprocess.Popen\<close> raises (no ffmpeg)\<close>
  stderr_lines :: "string list"       \<comment> \<open>what \<open>proc.stderr.readline()\<close> returns, up to the end\<close>
  returncode :: int
  copy_error :: "string option"       \<comment> \<open>\<open>os.makedirs\<close> or \<open>shutil.copy\<close> raises\<close>
  hook_calls :: "hook list"           \<comment> \<open>the calls of the progress hook by \<open>ydl.download\<close>\<close>
  download_error :: "string option"   \<comment> \<open>\<open>ydl.download\<close> raises, after those calls\<close>
  whisper_available :: bool
  total_duration :: "rat option"      \<comment> \<open>the duration \<^verbatim>\<open>ffprobe\<close> reports, if it does\<close>
  segments :: "segment list list"     \<comment> \<open>the items of \<open>segments_iter\<close>\<close>
  transcribe_error :: "string option" \<comment> \<open>the engine raises, after those items\<close>
  final_text :: string                \<comment> \<open>the transcript, formatted\<close>
  write_error :: "string option"      \<comment> \<open>writing the transcript raises\<close>

text \<open>A world in which nothing fails and nothing is reported.\<close>

definition calm :: world where
  "calm = \<lparr>input_exists = True, outpath = ''clips/v/out.mp4'', popen_error = None,
            stderr_lines = [], returncode = 0, copy_error = None, hook_calls = [],
            download_error = None, whisper_available = True, total_duration = None,
            segments = [], transcribe_error = None, final_text = [], write_error = None\<rparr>"

text \<open>\<open>str(i)\<close> for an integer.\<close>

function str_nat :: "nat \<Rightarrow> string" where
  "str_nat n =
     (if n < 10 then [char_of (48 + n)] else str_nat (n div 10) @ [char_of (48 + n mod 10)])"
  by pat_completeness auto
termination
  by (relation "measure (\<lambda>n. n)") auto

definition str_int :: "int \<Rightarrow> string" where
  "str_int i = (if i < 0 then CHR ''-'' # str_nat (nat (- i)) else str_nat (nat i))"

text \<open>The truth value of an optional string: \<open>None\<close> and the empty string are false.\<close>

definition truthy :: "string option \<Rightarrow> bool" where
  "truthy s = (case s of None \<Rightarrow> False | Some v \<Rightarrow> v \<noteq> [])"

definition or_empty :: "string option \<Rightarrow> string" where
  "or_empty s = (case s of None \<Rightarrow> [] | Some v \<Rightarrow> v)"

text \<open>
  The copy into the session folder,
  \<^verbatim>\<open>if session_id: os.makedirs(session_folder, exist_ok=True); shutil.copy(src, ...)\<close>,
  unguarded: \<open>Inl\<close> carries the message of the exception raised.
\<close>

definition session_copy :: "world \<Rightarrow> string option \<Rightarrow> string \<Rightarrow> 'm st \<Rightarrow> string \<times> 'm st + 'm st" where
  "session_copy w session_id src st =
     (if truthy session_id then
        (case copy_error w of
           Some e \<Rightarrow> Inl (e, st)
         | None \<Rightarrow> Inr (log_event (Copied src (or_empty session_id)) st))
      else Inr st)"

subsection \<open>The clip handlers\<close>

definition DEFAULT_EMOJI_FONT :: string where
  "DEFAULT_EMOJI_FONT = ''fonts/NotoColorEmoji-Regular.ttf''"

definition vertical_filter :: string where
  "vertical_filter = ''crop=in_h*9/16:in_h:(in_w-(in_h*9/16))/2:0,scale=1080:1920''"

definition mobile_full_width_filter :: string where
  "mobile_full_width_filter =
     ''scale=1080:1920:force_original_aspect_ratio=decrease,pad=1080:1920:(ow-iw)/2:(oh-ih)/2:black''"

text \<open>\<^verbatim>\<open>text.replace("'", "\\'")\<close>\<close>

definition escape_quotes :: "string \<Rightarrow> string" where
  "escape_quotes s = concat (map (\<lambda>c. if c = CHR 0x27 then [CHR 0x5C, CHR 0x27] else [c]) s)"

text \<open>\<^verbatim>\<open>",".join(parts)\<close>\<close>

fun join_comma :: "string list \<Rightarrow> string" where
  "join_comma [] = []"
| "join_comma [p] = p"
| "join_comma (p # q # ps) = p @ '','' @ join_comma (q # ps)"

text \<open>The single text overlay of \<open>do_clip\<close>, with a font size of 28 there.\<close>

definition drawtext :: "string \<Rightarrow> string \<Rightarrow> string" where
  "drawtext text font_size =
     ''drawtext=text='' @ [CHR 0x27] @ escape_quotes text @ [CHR 0x27] @ '':fontfile='' @
     DEFAULT_EMOJI_FONT @ '':fontcolor=white:fontsize='' @ font_size @
     '':x=(w-text_w)/2:y=h-200:box=1:boxcolor=black@0.6:boxborderw=10''"

text \<open>
  The command line, the same list in the four clip handlers; \<open>Num x\<close> stands for
  \<open>str(x)\<close> of a number.
\<close>

definition ffmpeg_cmd :: "rat \<Rightarrow> string \<Rightarrow> rat \<Rightarrow> string \<Rightarrow> string \<Rightarrow> arg list" where
  "ffmpeg_cmd start input_path duration vf_arg out =
     [Str ''ffmpeg'', Str ''-y'', Str ''-ss'', Num start, Str ''-i'', Str input_path,
      Str ''-t'', Num duration, Str ''-vf'', Str vf_arg,
      Str ''-c:v'', Str ''libx264'', Str ''-c:a'', Str ''aac'', Str out]"

text \<open>
  The reading loop over the diagnostic output of the process. \<open>per_line\<close> is what a
  line makes of the progress: nothing, a raise, or a value to write; for the clip
  handlers it is \<open>line_percent\<close> at the duration of the clip.
\<close>

fun read_stderr ::
    "string \<Rightarrow> (string \<Rightarrow> (string + rat) option) \<Rightarrow> string list \<Rightarrow> 'm st
       \<Rightarrow> string \<times> 'm st + 'm st" where
  "read_stderr name per_line [] st = Inr st"
| "read_stderr name per_line (line # rest) st =
     (case per_line line of
        None \<Rightarrow> read_stderr name per_line rest st
      | Some (Inl e) \<Rightarrow> Inl (e, st)
      | Some (Inr p) \<Rightarrow>
          read_stderr name per_line rest
            (seq [set_progress p, emit_progress name, push_job_update] st))"

text \<open>
  The \<open>try\<close> block that follows \<open>subprocess.Popen\<close>, and the \<open>except\<close> block after it. The
  four clip handlers and \<open>do_merge\<close> share their text, up to the name of the progress
  event, the progress of a line and the result. (\<open>do_clip\<close> and \<open>do_clip_with_template\<close>
  of \<^verbatim>\<open>server.py\<close> also record the clip in \<open>clips_metadata\<close> before the copy, which
  cannot raise and is left out.)
\<close>

definition ffmpeg_try ::
    "world \<Rightarrow> string \<Rightarrow> (string \<Rightarrow> (string + rat) option) \<Rightarrow> (string \<times> string) list
       \<Rightarrow> string option \<Rightarrow> 'm st \<Rightarrow> string \<times> 'm st + 'm st" where
  "ffmpeg_try w name per_line res session_id st =
     (case read_stderr name per_line (stderr_lines w) st of
        Inl failure \<Rightarrow> Inl failure
      | Inr st1 \<Rightarrow>
          if returncode w \<noteq> 0 then
            Inl (''ffmpeg failed with code '' @ str_int (returncode w), st1)
          else
            (case session_copy w session_id (outpath w)
                    (seq [set_status Finished, set_result res, set_progress 100] st1) of
               Inl failure \<Rightarrow> Inl failure
             | Inr st2 \<Rightarrow> Inr (push_job_update st2)))"

definition ffmpeg_run ::
    "world \<Rightarrow> string \<Rightarrow> (string \<Rightarrow> (string + rat) option) \<Rightarrow> (string \<times> string) list
       \<Rightarrow> string option \<Rightarrow> 'm st \<Rightarrow> 'm st" where
  "ffmpeg_run w name per_line res session_id st =
     (case ffmpeg_try w name per_line res session_id st of
        Inr st' \<Rightarrow> st'
      | Inl (e, st') \<Rightarrow>
          seq [log_event Kill, set_status Error, set_error e, push_job_update] st')"

text \<open>\<open>do_clip\<close> of \<^verbatim>\<open>server.py\<close>.\<close>

record clip_meta =
  cm_filename :: string
  cm_start :: rat
  cm_end :: rat
  cm_text :: "string option"
  cm_flip :: bool
  cm_session_id :: "string option"
  cm_output_name :: "string option"

definition do_clip :: "world \<Rightarrow> clip_meta job \<Rightarrow> clip_meta run" where
  "do_clip w j =
     (let st = seq [set_status Running, push_job_update] (j, []);
          m = meta j;
          input_path = ''downloads/'' @ cm_filename m
      in if \<not> input_exists w then
           returned (seq [set_status Error, set_error ''input file not found'',
                          push_job_update] st)
         else
           let duration = cm_end m - cm_start m
           in if duration \<le> 0 then
                returned (seq [set_status Error, set_error ''invalid start/end'',
                               push_job_update] st)
              else
                let vf_arg = join_comma
                      ((if cm_flip m then [''hflip''] else []) @
                       (if truthy (cm_text m) then [drawtext (or_empty (cm_text m)) ''28'']
                        else []) @
                       [vertical_filter]);
                    cmd = ffmpeg_cmd (cm_start m) input_path duration vf_arg (outpath w)
                in case popen_error w of
                     Some e \<Rightarrow> escaped e st
                   | None \<Rightarrow>
                       returned (ffmpeg_run w ''clip_progress''
                                   (\<lambda>line. line_percent line duration)
                                   [(''clip_file'', outpath w)] (cm_session_id m)
                                   (log_event (Popen cmd) st)))"

text \<open>
  \<open>do_clip\<close> of \<^verbatim>\<open>app.py\<close>. The assignment to \<open>cmd\<close> stands inside \<^verbatim>\<open>if text:\<close>, so for
  an empty text \<open>subprocess.Popen(cmd)\<close> reads an unbound local variable, before the
  \<open>try\<close> block (the message is that of Python 3.11).
\<close>

definition unbound_local :: "string \<Rightarrow> string" where
  "unbound_local name =
     ''cannot access local variable '' @ [CHR 0x27] @ name @ [CHR 0x27] @
     '' where it is not associated with a value''"

definition app_do_clip :: "world \<Rightarrow> clip_meta job \<Rightarrow> clip_meta run" where
  "app_do_clip w j =
     (let st = seq [set_status Running, push_job_update] (j, []);
          m = meta j;
          input_path = ''downloads/'' @ cm_filename m
      in if \<not> input_exists w then
           returned (seq [set_status Error, set_error ''input file not found'',
                          push_job_update] st)
         else
           let duration = cm_end m - cm_start m
           in if duration \<le> 0 then
                returned (seq [set_status Error, set_error ''invalid start/end'',
                               push_job_update] st)
              else
                let cmd =
                      (if truthy (cm_text m) then
                         Some (ffmpeg_cmd (cm_start m) input_path duration
                                 (vertical_filter @ '',hflip,'' @
                                  drawtext (or_empty (cm_text m)) ''28'')
                                 (outpath w))
                       else None)
                in case cmd of
                     None \<Rightarrow> escaped (unbound_local ''cmd'') st
                   | Some c \<Rightarrow>
                       (case popen_error w of
                          Some e \<Rightarrow> escaped e st
                        | None \<Rightarrow>
                            returned (ffmpeg_run w ''clip_progress''
                                        (\<lambda>line. line_percent line duration)
                                        [(''clip_file'', outpath w)] (cm_session_id m)
                                        (log_event (Popen c) st))))"

subsection \<open>The template handlers\<close>

text \<open>
  \<open>do_clip_with_template\<close> of \<^verbatim>\<open>server.py\<close>. The template is the dictionary the job
  carries; an absent key is \<open>None\<close>. The overlays are of an arbitrary type, and
  \<open>generate_overlay_filter\<close>, which turns them into \<^verbatim>\<open>drawtext\<close> strings, is an argument.
\<close>

record 'o template =
  tp_start :: "rat option"
  tp_duration :: "rat option"
  tp_resolution :: "string option"
  tp_flip :: bool
  tp_overlays :: "'o list"
  tp_text :: "string option"
  tp_font_size :: "int option"
  tp_name :: "string option"

record 'o clip_template_meta =
  ctm_filename :: string
  ctm_template :: "'o template"
  ctm_session_id :: "string option"

definition do_clip_with_template ::
    "('o list \<Rightarrow> string list) \<Rightarrow> world \<Rightarrow> 'o clip_template_meta job
       \<Rightarrow> 'o clip_template_meta run" where
  "do_clip_with_template generate_overlay_filter w j =
     (let st = seq [set_status Running, push_job_update] (j, []);
          m = meta j;
          template = ctm_template m;
          input_path = ''downloads/'' @ ctm_filename m
      in if \<not> input_exists w then
           returned (seq [set_status Error, set_error ''input file not found'',
                          push_job_update] st)
         else
           let start = (case tp_start template of None \<Rightarrow> 0 | Some v \<Rightarrow> v);
               duration = (case tp_duration template of None \<Rightarrow> 10 | Some v \<Rightarrow> v);
               resolution =
                 (case tp_resolution template of None \<Rightarrow> ''1080:1920'' | Some r \<Rightarrow> r);
               name = (case tp_name template of None \<Rightarrow> ''unknown'' | Some n \<Rightarrow> n);
               vf_arg = join_comma
                 ((if tp_flip template then [''hflip''] else []) @
                  (if tp_overlays template \<noteq> [] then
                     generate_overlay_filter (tp_overlays template)
                   else if truthy (tp_text template) then
                     [drawtext (or_empty (tp_text template))
                        (str_int (case tp_font_size template of None \<Rightarrow> 28 | Some n \<Rightarrow> n))]
                   else []) @
                  (if resolution \<noteq> [] \<and> resolution \<noteq> ''original''
                   then [''scale='' @ resolution] else []) @
                  [if tp_name template = Some ''mobile_full_width''
                   then mobile_full_width_filter else vertical_filter]);
               cmd = ffmpeg_cmd start input_path duration vf_arg (outpath w)
           in case popen_error w of
                Some e \<Rightarrow> escaped e st
              | None \<Rightarrow>
                  returned (ffmpeg_run w ''clip_progress''
                              (\<lambda>line. line_percent line duration)
                              [(''clip_file'', outpath w), (''template'', name)]
                              (ctm_session_id m)
                              (log_event (Popen cmd) st)))"

text \<open>
  \<open>do_template_clip\<close> of \<^verbatim>\<open>app.py\<close>. The template has a resolution
  (\<^verbatim>\<open>WIDTHxHEIGHT\<close>) and a list of text overlays; \<open>draw\<close>, an argument, formats the
  \<^verbatim>\<open>drawtext\<close> string of an overlay placed at \<open>auto_y\<close>.

  The constants and the three counters of the layout are assigned inside
  \<^verbatim>\<open>if template.get("resolution"):\<close>. Without a resolution the first overlay reads an
  unbound local variable (which one depends on the branch taken), before the \<open>try\<close>
  block.
\<close>

record app_template =
  at_resolution :: "string option"
  at_texts :: "text_overlay list"

record template_clip_meta =
  tcm_filename :: string
  tcm_start :: rat
  tcm_end :: rat
  tcm_template :: app_template
  tcm_output_name :: "string option"
  tcm_session_id :: "string option"

text \<open>\<^verbatim>\<open>try: w, h = template["resolution"].split("x"); vf_filters.append(...) except: pass\<close>\<close>

definition scale_filter :: "string \<Rightarrow> string list" where
  "scale_filter resolution =
     (case split CHR ''x'' resolution of
        [w, h] \<Rightarrow> [''scale='' @ w @ '':'' @ h]
      | _ \<Rightarrow> [])"

definition draw_texts ::
    "(text_overlay \<Rightarrow> int \<Rightarrow> string) \<Rightarrow> app_template \<Rightarrow> string + string list" where
  "draw_texts draw template =
     (if truthy (at_resolution template) then
        Inr (scale_filter (or_empty (at_resolution template)) @
             map2 draw (at_texts template) (stack_texts (at_texts template) no_stacks))
      else
        (case at_texts template of
           [] \<Rightarrow> Inr []
         | t # _ \<Rightarrow>
             Inl (unbound_local
                    (case anchor_of t of
                       Top \<Rightarrow> ''SAFE_TOP''
                     | Center \<Rightarrow> ''SAFE_CENTER''
                     | Bottom \<Rightarrow> ''PORTRAIT_H''))))"

definition do_template_clip ::
    "(text_overlay \<Rightarrow> int \<Rightarrow> string) \<Rightarrow> world \<Rightarrow> template_clip_meta job
       \<Rightarrow> template_clip_meta run" where
  "do_template_clip draw w j =
     (let st = seq [set_status Running, push_job_update] (j, []);
          m = meta j;
          input_path = ''downloads/'' @ tcm_filename m
      in if \<not> input_exists w then
           returned (seq [set_status Error, set_error ''input file not found'',
                          push_job_update] st)
         else
           let duration = tcm_end m - tcm_start m
           in if duration \<le> 0 then
                returned (seq [set_status Error, set_error ''invalid start/end'',
                               push_job_update] st)
              else
                (case draw_texts draw (tcm_template m) of
                   Inl e \<Rightarrow> escaped e st
                 | Inr vf_filters \<Rightarrow>
                     let vf_arg = join_comma vf_filters;
                         final_vf = (if vf_arg \<noteq> [] then vertical_filter @ '',hflip,'' @ vf_arg
                                     else vertical_filter);
                         cmd = ffmpeg_cmd (tcm_start m) input_path duration final_vf (outpath w)
                     in case popen_error w of
                          Some e \<Rightarrow> escaped e st
                        | None \<Rightarrow>
                            returned (ffmpeg_run w ''template_progress''
                                        (\<lambda>line. line_percent line duration)
                                        [(''clip_file'', outpath w)] (tcm_session_id m)
                                        (log_event (Popen cmd) st))))"

subsection \<open>The download handlers\<close>

text \<open>\<open>a or d\<close> for an optional number: \<open>None\<close> and zero are false.\<close>

definition num_or :: "rat option \<Rightarrow> rat \<Rightarrow> rat" where
  "num_or a d = (case a of None \<Rightarrow> d | Some v \<Rightarrow> if v = 0 then d else v)"

text \<open>
  The progress hook, \<open>progress(d)\<close>. In \<^verbatim>\<open>app.py\<close> the percentage is computed as
  \<open>round(downloaded / total * 100, 2)\<close> in another order of operations, with the same
  value.
\<close>

definition progress_hook :: "hook \<Rightarrow> 'm st \<Rightarrow> 'm st" where
  "progress_hook d st =
     (case d of
        Downloading tb tbe db \<Rightarrow>
          (let total = num_or tb (num_or tbe 0);
               downloaded = num_or db 0;
               prog = (if total \<noteq> 0 then downloaded / total * 100 else 0)
           in seq [set_progress (round2 prog), emit_progress ''download_progress'',
                   push_job_update] st)
      | Hook_finished \<Rightarrow> seq [set_progress 100, push_job_update] st
      | Hook_other \<Rightarrow> st)"

record download_meta =
  dm_url :: string
  dm_session_id :: "string option"

text \<open>\<open>os.path.basename\<close>\<close>

definition basename :: "string \<Rightarrow> string" where
  "basename p = last (split CHR ''/'' p)"

text \<open>
  \<open>do_download\<close> of \<^verbatim>\<open>server.py\<close>: the hook calls happen inside \<open>ydl.download\<close>, in
  the \<open>try\<close> block. (The list of videos sent after the last update is left out.)
\<close>

definition do_download :: "world \<Rightarrow> download_meta job \<Rightarrow> download_meta run" where
  "do_download w j =
     (let st = seq [set_status Running, push_job_update] (j, []);
          st1 = fold progress_hook (hook_calls w) st;
          res = [(''filename'', basename (outpath w)), (''path'', outpath w)];
          tried =
            (case download_error w of
               Some e \<Rightarrow> Inl (e, st1)
             | None \<Rightarrow>
                 (case session_copy w (dm_session_id (meta j)) (outpath w)
                         (seq [set_status Finished, set_result res, set_progress 100] st1) of
                    Inl failure \<Rightarrow> Inl failure
                  | Inr st2 \<Rightarrow> Inr (push_job_update st2)))
      in returned
           (case tried of
              Inr st' \<Rightarrow> st'
            | Inl (e, st') \<Rightarrow> seq [set_status Error, set_error e, push_job_update] st'))"

text \<open>
  \<open>do_download\<close> of \<^verbatim>\<open>app.py\<close>: here the copy stands in a \<open>try\<close> of its own,
  \<^verbatim>\<open>try: shutil.copy(...) except Exception: pass\<close>.
\<close>

definition app_do_download :: "world \<Rightarrow> download_meta job \<Rightarrow> download_meta run" where
  "app_do_download w j =
     (let st = seq [set_status Running, push_job_update] (j, []);
          st1 = fold progress_hook (hook_calls w) st;
          res = [(''filename'', basename (outpath w)), (''path'', outpath w)];
          tried =
            (case download_error w of
               Some e \<Rightarrow> Inl (e, st1)
             | None \<Rightarrow>
                 (case session_copy w (dm_session_id (meta j)) (outpath w)
                         (seq [set_status Finished, set_result res, set_progress 100] st1) of
                    Inl (e, st2) \<Rightarrow> Inr (push_job_update st2)
                  | Inr st2 \<Rightarrow> Inr (push_job_update st2)))
      in returned
           (case tried of
              Inr st' \<Rightarrow> st'
            | Inl (e, st') \<Rightarrow> seq [set_status Error, set_error e, push_job_update] st'))"

subsection \<open>The transcribe handler\<close>

record transcribe_meta =
  tm_filename :: string
  tm_session_id :: "string option"

text \<open>
  One item of \<open>segments_iter\<close>, a list of segments: each segment is sent as it comes and
  moves \<open>processed_time\<close>; then the progress is written, from the duration when
  \<^verbatim>\<open>ffprobe\<close> reported one that is not zero, in steps of 5 up to 99 otherwise.
\<close>

definition segment_end :: "segment \<Rightarrow> rat" where
  "segment_end s =
     (case seg_end s of
        Some e \<Rightarrow> e
      | None \<Rightarrow> (case seg_start s of Some v \<Rightarrow> v | None \<Rightarrow> 0))"

definition send_segment :: "segment \<Rightarrow> rat \<times> 'm st \<Rightarrow> rat \<times> 'm st" where
  "send_segment s acc =
     (max (fst acc) (segment_end s),
      log_event (Transcript_segment (case seg_start s of Some v \<Rightarrow> v | None \<Rightarrow> 0)
                   (segment_end s) (seg_text s)) (snd acc))"

definition transcribe_item :: "rat option \<Rightarrow> segment list \<Rightarrow> rat \<times> 'm st \<Rightarrow> rat \<times> 'm st" where
  "transcribe_item duration segs acc =
     (let acc1 = fold send_segment segs acc;
          processed_time = fst acc1;
          st = snd acc1;
          p = (if num_or duration 0 \<noteq> 0 then percent processed_time (num_or duration 0)
               else min 99 (progress (fst st) + 5))
      in (processed_time, seq [set_progress p, push_job_update] st))"

text \<open>
  \<open>do_transcribe\<close> of \<^verbatim>\<open>server.py\<close>. Here the copy into the session folder comes before
  the job is marked finished.
\<close>

definition do_transcribe :: "world \<Rightarrow> transcribe_meta job \<Rightarrow> transcribe_meta run" where
  "do_transcribe w j =
     (if \<not> whisper_available w then
        returned (seq [set_status Error, set_error ''faster-whisper not available'',
                       push_job_update] (j, []))
      else
        let st = seq [set_status Running, push_job_update] (j, []);
            m = meta j;
            outfile = ''transcripts/'' @ tm_filename m @ ''.txt''
        in if \<not> input_exists w then
             returned (seq [set_status Error, set_error ''file not found'',
                            push_job_update] st)
           else
             let st1 = seq [set_progress 0, push_job_update] st;
                 st2 = snd (fold (transcribe_item (total_duration w)) (segments w) (0, st1));
                 res = [(''transcript_file'', outfile),
                        (''text_preview'', take 400 (final_text w))];
                 tried =
                   (case transcribe_error w of
                      Some e \<Rightarrow> Inl (e, st2)
                    | None \<Rightarrow>
                        (case write_error w of
                           Some e \<Rightarrow> Inl (e, st2)
                         | None \<Rightarrow>
                             (case session_copy w (tm_session_id m) outfile st2 of
                                Inl failure \<Rightarrow> Inl failure
                              | Inr st3 \<Rightarrow>
                                  Inr (seq [set_status Finished, set_result res,
                                            set_progress 100, push_job_update] st3))))
             in returned
                  (case tried of
                     Inr st' \<Rightarrow> st'
                   | Inl (e, st') \<Rightarrow>
                       seq [set_status Error, set_error e, push_job_update] st'))"

text \<open>
  \<open>do_transcribe\<close> of \<^verbatim>\<open>app.py\<close> is the same text without the test of
  \<open>WHISPER_AVAILABLE\<close> (there the import is unconditional).
\<close>

definition app_do_transcribe :: "world \<Rightarrow> transcribe_meta job \<Rightarrow> transcribe_meta run" where
  "app_do_transcribe w j = do_transcribe (w\<lparr>whisper_available := True\<rparr>) j"

subsection \<open>The merge handler (\<^verbatim>\<open>app.py\<close>)\<close>

record merge_meta =
  mm_clips :: "string list"
  mm_output_name :: string
  mm_session_id :: "string option"

text \<open>
  \<^verbatim>\<open>prog = (secs / total_duration) * 100.0 if total_duration else 0.0\<close>, where the total
  is the sum of the durations \<^verbatim>\<open>ffprobe\<close> reports for the clips (\<open>None\<close> standing for a
  sum of zero). The list file the handler writes and removes is left out; its name,
  which carries the output name and the clock, is a fixed one in the command line.
\<close>

definition merge_percent :: "rat option \<Rightarrow> string \<Rightarrow> (string + rat) option" where
  "merge_percent duration line =
     map_option
       (\<lambda>secs. Inr (if num_or duration 0 \<noteq> 0 then percent secs (num_or duration 0)
                    else round2 (min 100 0)))
       (line_secs line)"

definition do_merge :: "world \<Rightarrow> merge_meta job \<Rightarrow> merge_meta run" where
  "do_merge w j =
     (let st = seq [set_status Running, push_job_update] (j, []);
          m = meta j;
          cmd = [Str ''ffmpeg'', Str ''-y'', Str ''-f'', Str ''concat'', Str ''-safe'', Str ''0'',
                 Str ''-i'', Str (''clips/merge_list.txt''), Str ''-vf'', Str vertical_filter,
                 Str ''-c:v'', Str ''libx264'', Str ''-c:a'', Str ''aac'', Str (outpath w)]
      in case popen_error w of
           Some e \<Rightarrow> escaped e st
         | None \<Rightarrow>
             returned (ffmpeg_run w ''merge_progress'' (merge_percent (total_duration w))
                         [(''merged_file'', outpath w)] (mm_session_id m)
                         (log_event (Popen cmd) st)))"

subsection \<open>The workers\<close>

text \<open>
  The table \<open>jobs\<close> and what has been sent so far. A worker takes one id after the other
  from the queue; the handlers it calls are arguments, so that what is proved of a worker
  holds whatever a handler does to its job and whatever it raises. The loop of the source
  never ends: it waits when the queue is empty. The model runs it over the ids that are in
  the queue.
\<close>

type_synonym 'm system = "(string \<rightharpoonup> 'm job) \<times> 'm event list"

text \<open>The last branch of the dispatch.\<close>

definition unknown_kind :: "'m job \<Rightarrow> 'm run" where
  "unknown_kind j =
     returned (seq [set_status Error, set_error (''unknown job kind: '' @ kind j),
                    push_job_update] (j, []))"

text \<open>
  \<^verbatim>\<open>try: <dispatch> except Exception as e: jobs[job_id]["status"] = "error"; ...\<close>:
  the job and the events once the \<open>try\<close> statement is left.
\<close>

definition settle :: "'m run \<Rightarrow> 'm st" where
  "settle r =
     (case raised r of
        None \<Rightarrow> (final r, events r)
      | Some e \<Rightarrow> seq [set_status Error, set_error e, push_job_update] (final r, events r))"

text \<open>\<open>job_worker\<close> of \<^verbatim>\<open>server.py\<close>.\<close>

record 'm handlers =
  h_download :: "'m job \<Rightarrow> 'm run"
  h_transcribe :: "'m job \<Rightarrow> 'm run"
  h_clip :: "'m job \<Rightarrow> 'm run"
  h_clip_with_template :: "'m job \<Rightarrow> 'm run"

definition job_worker_step :: "'m handlers \<Rightarrow> string \<Rightarrow> 'm system \<Rightarrow> 'm system" where
  "job_worker_step hs job_id s =
     (case fst s job_id of
        None \<Rightarrow> s
      | Some j \<Rightarrow>
          let r = (if kind j = ''download'' then h_download hs j
                   else if kind j = ''transcribe'' then h_transcribe hs j
                   else if kind j = ''clip'' then h_clip hs j
                   else if kind j = ''clip_template'' then h_clip_with_template hs j
                   else unknown_kind j)
          in ((fst s)(job_id \<mapsto> fst (settle r)), snd s @ snd (settle r)))"

fun job_worker :: "'m handlers \<Rightarrow> string list \<Rightarrow> 'm system \<Rightarrow> 'm system" where
  "job_worker hs [] s = s"
| "job_worker hs (job_id # queue) s = job_worker hs queue (job_worker_step hs job_id s)"

text \<open>\<open>worker_loop\<close> of \<^verbatim>\<open>app.py\<close>.\<close>

record 'm app_handlers =
  a_download :: "'m job \<Rightarrow> 'm run"
  a_transcribe :: "'m job \<Rightarrow> 'm run"
  a_clip :: "'m job \<Rightarrow> 'm run"
  a_template_clip :: "'m job \<Rightarrow> 'm run"
  a_merge :: "'m job \<Rightarrow> 'm run"

definition worker_loop_step :: "'m app_handlers \<Rightarrow> string \<Rightarrow> 'm system \<Rightarrow> 'm system" where
  "worker_loop_step hs job_id s =
     (case fst s job_id of
        None \<Rightarrow> s
      | Some j \<Rightarrow>
          let r = (if kind j = ''download'' then a_download hs j
                   else if kind j = ''transcribe'' then a_transcribe hs j
                   else if kind j = ''clip'' then a_clip hs j
                   else if kind j = ''template_clip'' then a_template_clip hs j
                   else if kind j = ''merge'' then a_merge hs j
                   else unknown_kind j)
          in ((fst s)(job_id \<mapsto> fst (settle r)), snd s @ snd (settle r)))"

fun worker_loop :: "'m app_handlers \<Rightarrow> string list \<Rightarrow> 'm system \<Rightarrow> 'm system" where
  "worker_loop hs [] s = s"
| "worker_loop hs (job_id # queue) s = worker_loop hs queue (worker_loop_step hs job_id s)"

text \<open>
  A submission, as every endpoint does it:
  \<^verbatim>\<open>job_id = create_job(kind, meta); job_queue.put(job_id); push_job_update(job_id)\<close>.
\<close>

definition submit ::
    "string \<Rightarrow> 'm \<Rightarrow> string \<Rightarrow> 'm system \<times> string list \<Rightarrow> 'm system \<times> string list" where
  "submit k m uuid sq =
     (let jobs = create_job (fst (fst sq)) k m uuid
      in ((jobs, snd (fst sq) @ [Job_update (new_job k m uuid)]), snd sq @ [uuid]))"

subsection \<open>The template store and the submission of a template clip (\<^verbatim>\<open>server.py\<close>)\<close>

text \<open>
  Templates are dictionaries that the global \<open>templates\<close> and the \<open>meta\<close> of a job refer
  to, and a dictionary may hold further lists and dictionaries. Whether one of them can
  change under the other is a question of sharing, so dictionaries and lists live in a
  heap, a list of objects addressed by position, and a value that is a list or a
  dictionary is the address of one (\<open>JRef\<close>). A dictionary is the list of its items in
  insertion order.
\<close>

datatype json = JNull | JBool bool | JNum rat | JStr string | JRef nat

datatype obj = Dict "(string \<times> json) list" | Array "json list"

definition deref :: "obj list \<Rightarrow> nat \<Rightarrow> obj" where
  "deref h a = (if a < length h then h ! a else Dict [])"

text \<open>\<open>d[key] = v\<close>\<close>

fun setitem :: "string \<Rightarrow> json \<Rightarrow> (string \<times> json) list \<Rightarrow> (string \<times> json) list" where
  "setitem key v [] = [(key, v)]"
| "setitem key v (item # d) =
     (if fst item = key then (key, v) # d else item # setitem key v d)"

text \<open>\<open>d.copy()\<close>: a new object with the same items; the values are not copied.\<close>

definition dict_copy :: "nat \<Rightarrow> obj list \<Rightarrow> nat \<times> obj list" where
  "dict_copy a h = (length h, h @ [deref h a])"

text \<open>
  \<^verbatim>\<open>if custom is not None: template[key] = custom\<close>, for the dictionary at address \<open>t\<close>.
\<close>

definition override :: "string \<Rightarrow> json option \<Rightarrow> nat \<Rightarrow> obj list \<Rightarrow> obj list" where
  "override key custom t h =
     (case custom of
        None \<Rightarrow> h
      | Some v \<Rightarrow> (case deref h t of Dict d \<Rightarrow> h[t := Dict (setitem key v d)] | Array xs \<Rightarrow> h))"

text \<open>
  The state of the server: the heap, \<open>templates\<close> (name to address), \<open>jobs\<close> and the queue.
  The \<open>meta\<close> of a template-clip job holds the address of its template.
\<close>

record ref_meta =
  rm_filename :: string
  rm_template :: nat
  rm_session_id :: "string option"

record server =
  sv_heap :: "obj list"
  sv_templates :: "string \<rightharpoonup> nat"
  sv_jobs :: "string \<rightharpoonup> ref_meta job"
  sv_queue :: "string list"

text \<open>
  The body of a request, as \<open>data.get\<close> reads it: \<open>None\<close> for a key that is absent or
  \<^verbatim>\<open>null\<close>. A response is the job id or an error with its HTTP status.
\<close>

record request =
  rq_filename :: "string option"
  rq_template_name :: "string option"
  rq_custom_overlays :: "json option"
  rq_custom_start :: "json option"
  rq_custom_duration :: "json option"
  rq_custom_output_name :: "json option"
  rq_custom_resolution :: "json option"
  rq_custom_flip :: "json option"
  rq_session_id :: "string option"

datatype response = Job_id string | Created string | Failed nat string

definition api_clip_with_template :: "request \<Rightarrow> string \<Rightarrow> server \<Rightarrow> response \<times> server" where
  "api_clip_with_template rq uuid s =
     (if \<not> truthy (rq_filename rq) \<or> \<not> truthy (rq_template_name rq) then
        (Failed 400 ''filename and template_name required'', s)
      else
        (case sv_templates s (or_empty (rq_template_name rq)) of
           None \<Rightarrow> (Failed 404 ''template not found'', s)
         | Some a \<Rightarrow>
             let template = fst (dict_copy a (sv_heap s));
                 h = seq [override ''overlays'' (rq_custom_overlays rq) template,
                          override ''start'' (rq_custom_start rq) template,
                          override ''duration'' (rq_custom_duration rq) template,
                          override ''output_name'' (rq_custom_output_name rq) template,
                          override ''resolution'' (rq_custom_resolution rq) template,
                          override ''flip'' (rq_custom_flip rq) template]
                       (snd (dict_copy a (sv_heap s)));
                 m = \<lparr>rm_filename = or_empty (rq_filename rq), rm_template = template,
                      rm_session_id = rq_session_id rq\<rparr>
             in (Job_id uuid,
                 s\<lparr>sv_heap := h,
                   sv_jobs := create_job (sv_jobs s) ''clip_template'' m uuid,
                   sv_queue := sv_queue s @ [uuid]\<rparr>)))"

text \<open>
  \<open>save_template\<close> binds the name to the dictionary it is given (the JSON file it also
  writes is left out). \<open>create_template\<close>, the upsert endpoint, calls it with the
  dictionary parsed from the request, a new object.
\<close>

definition save_template :: "string \<Rightarrow> nat \<Rightarrow> server \<Rightarrow> server" where
  "save_template template_name template_data s =
     s\<lparr>sv_templates := (sv_templates s)(template_name \<mapsto> template_data)\<rparr>"

definition create_template ::
    "string option \<Rightarrow> (string \<times> json) list option \<Rightarrow> server \<Rightarrow> response \<times> server" where
  "create_template template_name template_data s =
     (case template_data of
        None \<Rightarrow> (Failed 400 ''name and data required'', s)
      | Some d \<Rightarrow>
          if \<not> truthy template_name \<or> d = [] then (Failed 400 ''name and data required'', s)
          else
            (Created (or_empty template_name),
             save_template (or_empty template_name) (length (sv_heap s))
               (s\<lparr>sv_heap := sv_heap s @ [Dict d]\<rparr>)))"

text \<open>The template a job carries, read through its address.\<close>

definition job_template :: "server \<Rightarrow> string \<Rightarrow> obj option" where
  "job_template s uuid =
     map_option (\<lambda>j. deref (sv_heap s) (rm_template (meta j))) (sv_jobs s uuid)"

text \<open>The template stored under a name.\<close>

definition stored_template :: "server \<Rightarrow> string \<Rightarrow> obj option" where
  "stored_template s template_name = map_option (deref (sv_heap s)) (sv_templates s template_name)"

text \<open>
  Requests that change the store or the heap, served one after the other, and the
  relation of a heap to a later one in which every object of the first is still what it
  was.
\<close>

datatype request_op =
    Clip_template request string
  | Upsert "string option" "(string \<times> json) list option"

fun serve :: "request_op \<Rightarrow> server \<Rightarrow> server" where
  "serve (Clip_template rq uuid) s = snd (api_clip_with_template rq uuid s)"
| "serve (Upsert template_name template_data) s =
     snd (create_template template_name template_data s)"

definition serve_all :: "request_op list \<Rightarrow> server \<Rightarrow> server" where
  "serve_all ops s = fold serve ops s"

definition heap_extends :: "obj list \<Rightarrow> obj list \<Rightarrow> bool" where
  "heap_extends h h' = (length h \<le> length h' \<and> (\<forall>a<length h. h' ! a = h ! a))"

subsection \<open>Session folders and their cleanup\<close>

text \<open>
  A session folder \<^verbatim>\<open>sessions/<session_id>\<close> is the list of its entries. \<open>os.remove\<close>
  unlinks a regular file and raises on a subdirectory or on a name that is not there
  (failures for lack of permission are not modelled); \<open>os.rmdir\<close> of an empty folder
  succeeds.
\<close>

definition endswith :: "string \<Rightarrow> string \<Rightarrow> bool" where
  "endswith s suf = (length suf \<le> length s \<and> drop (length s - length suf) s = suf)"

datatype entry = File | Dir

type_synonym folder = "(string \<times> entry) list"

type_synonym sessions = "string \<rightharpoonup> folder"

definition listdir :: "folder \<Rightarrow> string list" where
  "listdir d = map fst d"

definition os_remove :: "string \<Rightarrow> folder \<Rightarrow> folder option" where
  "os_remove fname d =
     (if (fname, File) \<in> set d then Some (filter (\<lambda>e. e \<noteq> (fname, File)) d) else None)"

text \<open>\<^verbatim>\<open>try: os.remove(full) except Exception: pass\<close>\<close>

definition try_remove :: "string \<Rightarrow> folder \<Rightarrow> folder" where
  "try_remove fname d = (case os_remove fname d of Some d' \<Rightarrow> d' | None \<Rightarrow> d)"

text \<open>\<^verbatim>\<open>if not os.listdir(folder): os.rmdir(folder)\<close>, writing the folder back otherwise.\<close>

definition remove_if_empty :: "string \<Rightarrow> folder \<Rightarrow> sessions \<Rightarrow> sessions" where
  "remove_if_empty session_id d fs =
     (if listdir d = [] then fs(session_id := None) else fs(session_id \<mapsto> d))"

text \<open>The body of the loop of \<open>cleanup_session\<close> in \<^verbatim>\<open>video_tools.py\<close>.\<close>

definition cleanup_entry :: "bool \<Rightarrow> bool \<Rightarrow> string \<Rightarrow> folder \<Rightarrow> folder" where
  "cleanup_entry delete_clips delete_video fname d =
     (if endswith fname ''.mp4'' then
        (if delete_clips \<or> delete_video then try_remove fname d else d)
      else if endswith fname ''.txt'' \<or> endswith fname ''.vtt'' \<or> endswith fname ''.srt'' then
        try_remove fname d
      else try_remove fname d)"

definition cleanup_session :: "sessions \<Rightarrow> string \<Rightarrow> bool \<Rightarrow> bool \<Rightarrow> bool \<times> sessions" where
  "cleanup_session fs session_id delete_clips delete_video =
     (case fs session_id of
        None \<Rightarrow> (False, fs)
      | Some d \<Rightarrow>
          (True, remove_if_empty session_id
                   (fold (cleanup_entry delete_clips delete_video) (listdir d) d) fs))"

text \<open>The same for \<open>cleanup_session_immediate\<close> in \<^verbatim>\<open>app.py\<close>.\<close>

definition cleanup_entry_immediate :: "bool \<Rightarrow> bool \<Rightarrow> string \<Rightarrow> folder \<Rightarrow> folder" where
  "cleanup_entry_immediate delete_clips delete_video fname d =
     (if endswith fname ''.mp4'' then
        (if delete_clips \<or> delete_video then try_remove fname d else d)
      else try_remove fname d)"

definition cleanup_session_immediate ::
    "sessions \<Rightarrow> string \<Rightarrow> bool \<Rightarrow> bool \<Rightarrow> bool \<times> sessions" where
  "cleanup_session_immediate fs session_id delete_clips delete_video =
     (case fs session_id of
        None \<Rightarrow> (False, fs)
      | Some d \<Rightarrow>
          (True, remove_if_empty session_id
                   (fold (cleanup_entry_immediate delete_clips delete_video) (listdir d) d) fs))"

text \<open>The entries of a session folder; none when the folder does not exist.\<close>

definition session_entries :: "sessions \<Rightarrow> string \<Rightarrow> (string \<times> entry) set" where
  "session_entries fs session_id = (case fs session_id of None \<Rightarrow> {} | Some d \<Rightarrow> set d)"

text \<open>
  What one pass over the names \<open>ns\<close> leaves of an entry: it goes when it is a regular file
  named in \<open>ns\<close> that is no \<^verbatim>\<open>.mp4\<close>, or an \<^verbatim>\<open>.mp4\<close> with a flag set.
\<close>

definition kept :: "bool \<Rightarrow> bool \<Rightarrow> string list \<Rightarrow> string \<times> entry \<Rightarrow> bool" where
  "kept dc dv ns e =
     (\<not> (fst e \<in> set ns \<and> snd e = File \<and> (\<not> endswith (fst e) ''.mp4'' \<or> dc \<or> dv)))"

subsection \<open>Example inputs\<close>

text \<open>
  Jobs as the submission endpoints create them, each with a session id, and worlds in
  which one thing goes wrong.
\<close>

definition clip_job :: "clip_meta job" where
  "clip_job =
     new_job ''clip''
       \<lparr>cm_filename = ''v.mp4'', cm_start = 10, cm_end = 15, cm_text = Some ''Hi'',
        cm_flip = False, cm_session_id = Some ''s1'', cm_output_name = None\<rparr>
       ''job-1''"

definition download_job :: "download_meta job" where
  "download_job =
     new_job ''download'' \<lparr>dm_url = ''https://example.org/v'', dm_session_id = Some ''s1''\<rparr>
       ''job-2''"

definition transcribe_job :: "transcribe_meta job" where
  "transcribe_job =
     new_job ''transcribe'' \<lparr>tm_filename = ''v.mp4'', tm_session_id = Some ''s1''\<rparr> ''job-3''"

definition merge_job :: "merge_meta job" where
  "merge_job =
     new_job ''merge''
       \<lparr>mm_clips = [''a.mp4'', ''b.mp4''], mm_output_name = ''m.mp4'',
        mm_session_id = Some ''s1''\<rparr>
       ''job-4''"

text \<open>Template jobs without overlays; the second template has a duration of zero.\<close>

definition plain_template :: "unit template" where
  "plain_template =
     \<lparr>tp_start = Some 5, tp_duration = Some 10, tp_resolution = None, tp_flip = False,
      tp_overlays = [], tp_text = None, tp_font_size = None, tp_name = Some ''plain''\<rparr>"

definition clip_template_job :: "unit clip_template_meta job" where
  "clip_template_job =
     new_job ''clip_template''
       \<lparr>ctm_filename = ''v.mp4'', ctm_template = plain_template,
        ctm_session_id = Some ''s1''\<rparr>
       ''job-5''"

definition empty_range_job :: "unit clip_template_meta job" where
  "empty_range_job =
     new_job ''clip_template''
       \<lparr>ctm_filename = ''v.mp4'', ctm_template = plain_template\<lparr>tp_duration := Some 0\<rparr>,
        ctm_session_id = None\<rparr>
       ''job-6''"

definition template_clip_job :: "template_clip_meta job" where
  "template_clip_job =
     new_job ''template_clip''
       \<lparr>tcm_filename = ''v.mp4'', tcm_start = 10, tcm_end = 15,
        tcm_template = \<lparr>at_resolution = None, at_texts = []\<rparr>,
        tcm_output_name = None, tcm_session_id = Some ''s1''\<rparr>
       ''job-7''"

definition disk_full :: world where
  "disk_full = calm\<lparr>copy_error := Some ''[Errno 28] No space left on device''\<rparr>"

text \<open>
  A table with a clip job and a job of a kind no worker knows; handlers of which only the
  clip handler matters, run where ffmpeg is not installed.
\<close>

definition no_ffmpeg :: world where
  "no_ffmpeg = calm\<lparr>popen_error := Some ''[Errno 2] No such file or directory: ffmpeg''\<rparr>"

definition two_jobs :: "clip_meta system" where
  "two_jobs =
     (Map.empty(''job-1'' \<mapsto> clip_job, ''job-9'' \<mapsto> clip_job\<lparr>ident := ''job-9'', kind := ''resize''\<rparr>),
      [])"

definition clip_handlers :: "world \<Rightarrow> clip_meta handlers" where
  "clip_handlers w =
     \<lparr>h_download = unknown_kind, h_transcribe = unknown_kind, h_clip = do_clip w,
      h_clip_with_template = unknown_kind\<rparr>"

definition app_clip_handlers :: "world \<Rightarrow> clip_meta app_handlers" where
  "app_clip_handlers w =
     \<lparr>a_download = unknown_kind, a_transcribe = unknown_kind, a_clip = app_do_clip w,
      a_template_clip = unknown_kind, a_merge = unknown_kind\<rparr>"

text \<open>
  A store with one template, whose overlays are a list of their own on the heap; a
  request that overrides the start; a later upsert under the same name.
\<close>

definition one_template :: server where
  "one_template =
     \<lparr>sv_heap = [Dict [(''start'', JNum 0), (''overlays'', JRef 1)], Array [JStr ''title'']],
      sv_templates = Map.empty(''intro'' \<mapsto> 0), sv_jobs = Map.empty, sv_queue = []\<rparr>"

definition start_at_7 :: request where
  "start_at_7 =
     \<lparr>rq_filename = Some ''v.mp4'', rq_template_name = Some ''intro'',
      rq_custom_overlays = None, rq_custom_start = Some (JNum 7), rq_custom_duration = None,
      rq_custom_output_name = None, rq_custom_resolution = None, rq_custom_flip = None,
      rq_session_id = None\<rparr>"


subsection \<open>The progress a client sees\<close>

text \<open>
  The snapshots that \<open>push_job_update\<close> has sent, and of those sent while the job was
  running the progress, in order. Every write to \<open>progress\<close> that a handler makes while
  its job runs is followed by such a snapshot, and the first snapshot of a run shows the
  progress the job was created with.
\<close>

fun job_updates :: "'m event list \<Rightarrow> 'm job list" where
  "job_updates [] = []"
| "job_updates (Job_update j # es) = j # job_updates es"
| "job_updates (e # es) = job_updates es"

definition running_progress :: "'m event list \<Rightarrow> rat list" where
  "running_progress es = map progress (filter (\<lambda>j. status j = Running) (job_updates es))"


text \<open>One write of a reading loop: the value, the progress event, the snapshot.\<close>

definition write_progress :: "string \<Rightarrow> rat \<Rightarrow> 'm st \<Rightarrow> 'm st" where
  "write_progress name p st = seq [set_progress p, emit_progress name, push_job_update] st"





section \<open>Theorems\<close>

subsection \<open>The elapsed-time marker\<close>

lemma example_line_secs:
  "line_secs ''frame=10 time=00:01:05.50 bitrate=...'' = Some (131 / 2)"
  by code_simp

lemma percent_of_example: "percent_of (131 / 2) 130 = Inr (2519 / 50)"
  by code_simp

text \<open>
  Claim C4, as stated, fails. The line \<^verbatim>\<open>frame=10 time=00:01:05.50 bitrate=...\<close> carries
  65.5 seconds, and 65.5 / 130 is 131/260 (about 0.5038), not 0.5; the handlers, which work
  in percent, write 50.38 and not 50.
\<close>

theorem progress_fraction_example_not_half:
  "progress_fraction ''frame=10 time=00:01:05.50 bitrate=...'' 130 \<noteq> Some (1 / 2) \<and>
   line_percent ''frame=10 time=00:01:05.50 bitrate=...'' 130 \<noteq> Some (Inr 50)"
  by (simp add: progress_fraction_def line_percent_def example_line_secs percent_of_example)

text \<open>
  Claim C4, amended. For that line the marker is found and converted as
  \<open>h * 3600 + m * 60 + s = 65.5\<close>; with a total duration of 130 the fraction is 131/260
  and the percentage written is 50.38 (\<open>round(50.3846..., 2)\<close>). The fraction is exactly
  0.5 for a total duration of 131.
\<close>

theorem progress_fraction_example:
  "re_search_time ''frame=10 time=00:01:05.50 bitrate=...'' = Some ''00:01:05.50'' \<and>
   ffmpeg_time_to_secs ''00:01:05.50'' = 0 * 3600 + 1 * 60 + 11 / 2 \<and>
   progress_fraction ''frame=10 time=00:01:05.50 bitrate=...'' 130 = Some (131 / 260) \<and>
   line_percent ''frame=10 time=00:01:05.50 bitrate=...'' 130 = Some (Inr (2519 / 50)) \<and>
   progress_fraction ''frame=10 time=00:01:05.50 bitrate=...'' 131 = Some (1 / 2)"
proof (intro conjI)
  show "re_search_time ''frame=10 time=00:01:05.50 bitrate=...'' = Some ''00:01:05.50''"
    by code_simp
  show "ffmpeg_time_to_secs ''00:01:05.50'' = 0 * 3600 + 1 * 60 + 11 / 2"
    by code_simp
  show "progress_fraction ''frame=10 time=00:01:05.50 bitrate=...'' 130 = Some (131 / 260)"
    by (simp add: progress_fraction_def example_line_secs)
  show "line_percent ''frame=10 time=00:01:05.50 bitrate=...'' 130 = Some (Inr (2519 / 50))"
    by (simp add: line_percent_def example_line_secs percent_of_example)
  show "progress_fraction ''frame=10 time=00:01:05.50 bitrate=...'' 131 = Some (1 / 2)"
    by (simp add: progress_fraction_def example_line_secs)
qed

subsection \<open>Overlay stacking\<close>

lemma place_by_anchor:
  "place t s =
     (case anchor_of t of
        Top \<Rightarrow> (120 + top_stack s, s\<lparr>top_stack := top_stack s + (estimated_h t + 40)\<rparr>)
      | Center \<Rightarrow>
          (960 + center_stack s, s\<lparr>center_stack := center_stack s + (estimated_h t + 40)\<rparr>)
      | Bottom \<Rightarrow>
          (1800 - bottom_stack s - estimated_h t,
           s\<lparr>bottom_stack := bottom_stack s + (estimated_h t + 40)\<rparr>))"
  by (simp add: place_def anchor_of_def Let_def SAFE_TOP_def SAFE_CENTER_def SAFE_BOTTOM_def
        PORTRAIT_H_def)

lemma length_stack_texts: "length (stack_texts ts s) = length ts"
  by (induction ts arbitrary: s) (auto split: prod.splits)

lemma stack_texts_nth:
  "i < length ts \<Longrightarrow>
   stack_texts ts s ! i =
     (case anchor_of (ts ! i) of
        Top \<Rightarrow> 120 + (top_stack s + taken Top (take i ts))
      | Center \<Rightarrow> 960 + (center_stack s + taken Center (take i ts))
      | Bottom \<Rightarrow> 1800 - (bottom_stack s + taken Bottom (take i ts)) - estimated_h (ts ! i))"
proof (induction ts arbitrary: s i)
  case Nil
  then show ?case by simp
next
  case (Cons t ts)
  show ?case
  proof (cases i)
    case 0
    then show ?thesis
      by (cases "anchor_of t") (simp_all add: place_by_anchor taken_def)
  next
    case (Suc j)
    with Cons.prems have j: "j < length ts" by simp
    show ?thesis
      using Cons.IH [OF j, of "snd (place t s)"] Suc
      by (cases "anchor_of t"; cases "anchor_of (ts ! j)")
         (simp_all add: place_by_anchor taken_def)
  qed
qed

lemma estimated_h_values:
  "estimated_h \<lparr>txt_y = p, txt_fontsize = Some 50\<rparr> = 70"
  "estimated_h \<lparr>txt_y = p, txt_fontsize = None\<rparr> = 70"
  "estimated_h \<lparr>txt_y = p, txt_fontsize = Some 45\<rparr> = 62"
  "estimated_h \<lparr>txt_y = p, txt_fontsize = Some 3\<rparr> = 4"
  by (simp_all add: estimated_h_def times_1_4_truncated_def round_to_double_def Let_def)

lemma anchor_of_values:
  "anchor_of \<lparr>txt_y = Some ''bottom'', txt_fontsize = f\<rparr> = Bottom"
  "anchor_of \<lparr>txt_y = Some ''top'', txt_fontsize = f\<rparr> = Top"
  "anchor_of \<lparr>txt_y = Some ''Middle'', txt_fontsize = f\<rparr> = Center"
  "anchor_of \<lparr>txt_y = Some ''h-150'', txt_fontsize = f\<rparr> = Bottom"
  "anchor_of \<lparr>txt_y = None, txt_fontsize = f\<rparr> = Bottom"
  by code_simp+

lemma taken_uniform:
  assumes "\<forall>t\<in>set ts. anchor_of t = a \<and> estimated_h t = h"
  shows "taken a ts = (h + 40) * int (length ts)"
  using assms by (induction ts) (simp_all add: taken_def algebra_simps)

text \<open>
  Claim C7, as stated, fails: the height is not estimated as \<open>fontSize * 1.4\<close> but as the
  integer part of that product. Two overlays anchored at the top with font size 3 are
  placed at 120 and 164; with a height of \<open>3 * 1.4 = 4.2\<close> the second would stand at
  \<open>120 + (4.2 + 40) = 164.2\<close>.
\<close>

theorem overlay_height_is_truncated:
  "of_int (stack_texts [\<lparr>txt_y = Some ''top'', txt_fontsize = Some 3\<rparr>,
                        \<lparr>txt_y = Some ''top'', txt_fontsize = Some 3\<rparr>] no_stacks ! 1)
     \<noteq> (120 + (3 * 1.4 + 40) :: rat)"
  by (simp add: place_by_anchor anchor_of_values estimated_h_values no_stacks_def)

text \<open>
  Claim C7, amended. With the counters at zero (as the handler sets them when the template
  names a resolution), every overlay gets a position, and the position of the \<open>i\<close>-th is
  fixed by its anchor and by the overlays of the same anchor before it: the anchor is
  \<open>Top\<close> when the lower-cased \<^verbatim>\<open>y\<close> contains \<^verbatim>\<open>top\<close>, else \<open>Center\<close> when it contains
  \<^verbatim>\<open>mid\<close> or \<^verbatim>\<open>center\<close>, else \<open>Bottom\<close>; the height is estimated as
  \<open>int(fontsize * 1.4)\<close>, the float product truncated; an overlay stands at the current
  offset of its anchor (top: \<open>120 + offset\<close>; center: \<open>960 + offset\<close>; bottom:
  \<open>1920 - 120 - offset - height\<close>), and the offset then grows by \<open>height + 40\<close>. In
  particular overlays that are all anchored at the bottom with font size 50 stand at
  \<open>1730, 1620, 1510, \<dots>\<close>: strictly upward from the bottom margin, 110 apart.
\<close>

theorem overlay_stacking:
  "length (stack_texts ts no_stacks) = length ts \<and>
   (\<forall>i<length ts.
      stack_texts ts no_stacks ! i =
        (case anchor_of (ts ! i) of
           Top \<Rightarrow> SAFE_TOP + taken Top (take i ts)
         | Center \<Rightarrow> SAFE_CENTER + taken Center (take i ts)
         | Bottom \<Rightarrow> PORTRAIT_H - SAFE_BOTTOM - taken Bottom (take i ts) - estimated_h (ts ! i))) \<and>
   ((\<forall>t\<in>set ts. anchor_of t = Bottom \<and> txt_fontsize t = Some 50) \<longrightarrow>
      (\<forall>i<length ts. stack_texts ts no_stacks ! i = 1730 - 110 * int i))"
proof (intro conjI allI impI)
  show "length (stack_texts ts no_stacks) = length ts"
    by (rule length_stack_texts)
next
  fix i assume i: "i < length ts"
  show "stack_texts ts no_stacks ! i =
        (case anchor_of (ts ! i) of
           Top \<Rightarrow> SAFE_TOP + taken Top (take i ts)
         | Center \<Rightarrow> SAFE_CENTER + taken Center (take i ts)
         | Bottom \<Rightarrow> PORTRAIT_H - SAFE_BOTTOM - taken Bottom (take i ts) - estimated_h (ts ! i))"
    using stack_texts_nth [OF i, of no_stacks]
    by (simp add: no_stacks_def SAFE_TOP_def SAFE_CENTER_def SAFE_BOTTOM_def PORTRAIT_H_def
          split: anchor.splits)
next
  fix i
  assume all: "\<forall>t\<in>set ts. anchor_of t = Bottom \<and> txt_fontsize t = Some 50"
    and i: "i < length ts"
  have est: "estimated_h t = 70" if "t \<in> set ts" for t
    using all that
    by (simp add: estimated_h_def times_1_4_truncated_def round_to_double_def Let_def)
  have "\<forall>t\<in>set (take i ts). anchor_of t = Bottom \<and> estimated_h t = 70"
    using all est by (auto dest: in_set_takeD)
  then have "taken Bottom (take i ts) = 110 * int (length (take i ts))"
    using taken_uniform [of "take i ts" Bottom 70] by simp
  moreover have "anchor_of (ts ! i) = Bottom" "estimated_h (ts ! i) = 70"
    using all est i by simp_all
  ultimately show "stack_texts ts no_stacks ! i = 1730 - 110 * int i"
    using stack_texts_nth [OF i, of no_stacks] i by (simp add: no_stacks_def min_def)
qed

text \<open>The example of the specification: three overlays at the bottom, font size 50.\<close>

theorem overlay_stacking_witness:
  "stack_texts [\<lparr>txt_y = Some ''bottom'', txt_fontsize = Some 50\<rparr>,
                \<lparr>txt_y = Some ''bottom'', txt_fontsize = Some 50\<rparr>,
                \<lparr>txt_y = Some ''bottom'', txt_fontsize = Some 50\<rparr>] no_stacks
     = [1730, 1620, 1510]"
proof -
  let ?b = "\<lparr>txt_y = Some ''bottom'', txt_fontsize = Some 50\<rparr>"
  define ys where "ys = stack_texts [?b, ?b, ?b] no_stacks"
  have h: "\<forall>t\<in>set [?b, ?b, ?b]. anchor_of t = Bottom \<and> txt_fontsize t = Some 50"
    by (simp add: anchor_of_values)
  have len: "length ys = 3"
    unfolding ys_def length_stack_texts by simp
  have "\<forall>i<length [?b, ?b, ?b]. ys ! i = 1730 - 110 * int i"
    unfolding ys_def using overlay_stacking [of "[?b, ?b, ?b]"] h by blast
  then have "ys ! 0 = 1730" "ys ! 1 = 1620" "ys ! 2 = 1510"
    by simp_all
  with len have "ys = [1730, 1620, 1510]"
    by (auto simp: list_eq_iff_nth_eq less_Suc_eq numeral_3_eq_3 numeral_2_eq_2)
  then show ?thesis
    unfolding ys_def .
qed

subsection \<open>Progress\<close>


lemma py_round_bounds: "of_int (py_round x) \<le> x + 1/2 \<and> x - 1/2 \<le> of_int (py_round x)"
  unfolding py_round_def Let_def by (auto; linarith)













lemma job_updates_append: "job_updates (es @ es') = job_updates es @ job_updates es'"
  by (induction es rule: job_updates.induct) simp_all

lemma running_progress_append:
  "running_progress (es @ es') = running_progress es @ running_progress es'"
  by (simp add: running_progress_def job_updates_append)

lemma running_progress_simps:
  "running_progress [] = []"
  "running_progress (Job_update j # es) =
     (if status j = Running then progress j # running_progress es else running_progress es)"
  "running_progress (Emit n p # es) = running_progress es"
  "running_progress (Popen c # es) = running_progress es"
  "running_progress (Kill # es) = running_progress es"
  "running_progress (Copied a b # es) = running_progress es"
  "running_progress (Transcript_segment x y t # es) = running_progress es"
  by (simp_all add: running_progress_def)

text \<open>The steps of a handler, on the job and on the progress sent.\<close>

lemma step_job:
  "fst (set_status v st) = (fst st)\<lparr>status := v\<rparr>"
  "fst (set_progress p st) = (fst st)\<lparr>progress := p\<rparr>"
  "fst (set_result r st) = (fst st)\<lparr>result := Some r\<rparr>"
  "fst (set_error e st) = (fst st)\<lparr>error := Some e\<rparr>"
  "fst (log_event ev st) = fst st"
  "fst (push_job_update st) = fst st"
  "fst (emit_progress n st) = fst st"
  by (simp_all add: set_status_def set_progress_def set_result_def set_error_def log_event_def
        push_job_update_def emit_progress_def)

lemma step_events:
  "snd (set_status v st) = snd st"
  "snd (set_progress p st) = snd st"
  "snd (set_result r st) = snd st"
  "snd (set_error e st) = snd st"
  "snd (log_event ev st) = snd st @ [ev]"
  "snd (push_job_update st) = snd st @ [Job_update (fst st)]"
  "snd (emit_progress n st) = snd st @ [Emit n (progress (fst st))]"
  by (simp_all add: set_status_def set_progress_def set_result_def set_error_def log_event_def
        push_job_update_def emit_progress_def)

lemma step_pair:
  "set_status v (j, es) = (j\<lparr>status := v\<rparr>, es)"
  "set_progress p (j, es) = (j\<lparr>progress := p\<rparr>, es)"
  "set_result r (j, es) = (j\<lparr>result := Some r\<rparr>, es)"
  "set_error e (j, es) = (j\<lparr>error := Some e\<rparr>, es)"
  "log_event ev (j, es) = (j, es @ [ev])"
  "push_job_update (j, es) = (j, es @ [Job_update j])"
  "emit_progress n (j, es) = (j, es @ [Emit n (progress j)])"
  by (simp_all add: set_status_def set_progress_def set_result_def set_error_def log_event_def
        push_job_update_def emit_progress_def)

lemma seq_simps: "seq [] s = s" "seq (f # fs) s = seq fs (f s)"
  by (simp_all add: seq_def)

lemmas steps = seq_simps step_pair step_job step_events running_progress_append
  running_progress_simps




lemma read_stderr_writes:
  "d \<noteq> 0 \<Longrightarrow>
   read_stderr n (\<lambda>line. line_percent line d) lines st =
     Inr (fold (write_progress n) (map (\<lambda>s. percent s d) (List.map_filter line_secs lines)) st)"
  by (induction lines arbitrary: st)
     (auto simp: line_percent_def percent_of_def write_progress_def split: option.splits)
































subsection \<open>A failed session copy\<close>

text \<open>
  In general, for \<open>do_clip\<close> of \<^verbatim>\<open>server.py\<close>: when ffmpeg has exited with 0 and the copy
  into the session folder raises, the job ends with status \<open>Error\<close>, the result that was
  written before the copy, and the message of the copy's exception.
\<close>

lemma clip_copy_failure:
  assumes "input_exists w" "cm_start (meta j) < cm_end (meta j)" "popen_error w = None"
    "returncode w = 0" "truthy (cm_session_id (meta j))" "copy_error w = Some e"
  shows "status (final (do_clip w j)) = Error \<and>
         result (final (do_clip w j)) = Some [(''clip_file'', outpath w)] \<and>
         error (final (do_clip w j)) = Some e"
proof -
  let ?d = "cm_end (meta j) - cm_start (meta j)"
  have d: "?d \<noteq> 0"
    using assms(2) by simp
  show ?thesis
    using assms
    by (simp add: do_clip_def Let_def returned_def ffmpeg_run_def ffmpeg_try_def
          session_copy_def read_stderr_writes [OF d] steps)
qed

text \<open>
  Claim C1 at a failing input: a clip job with a session id whose ffmpeg run succeeds and
  whose copy into the session folder then raises. The job has reached the terminal status
  \<open>Error\<close> with \<open>result\<close> and \<open>error\<close> both set, in \<^verbatim>\<open>server.py\<close> and in \<^verbatim>\<open>app.py\<close>:
  the \<open>except\<close> block records the error and leaves the result that was already written.
\<close>

theorem clip_copy_failure_result_and_error:
  "status (final (do_clip disk_full clip_job)) = Error \<and>
   result (final (do_clip disk_full clip_job)) = Some [(''clip_file'', ''clips/v/out.mp4'')] \<and>
   error (final (do_clip disk_full clip_job)) = Some ''[Errno 28] No space left on device'' \<and>
   raised (do_clip disk_full clip_job) = None \<and>
   status (final (app_do_clip disk_full clip_job)) = Error \<and>
   result (final (app_do_clip disk_full clip_job))
     = Some [(''clip_file'', ''clips/v/out.mp4'')] \<and>
   error (final (app_do_clip disk_full clip_job))
     = Some ''[Errno 28] No space left on device'' \<and>
   raised (app_do_clip disk_full clip_job) = None"
  by code_simp

text \<open>
  Claim C5 at the same kind of input, for the other handlers. \<open>do_download\<close> of
  \<^verbatim>\<open>app.py\<close> guards the copy and finishes the job; every other handler that copies
  into the session folder turns the failed copy into the terminal status \<open>Error\<close>.
\<close>

theorem copy_failure_fails_the_job:
  "status (final (app_do_download disk_full download_job)) = Finished \<and>
   status (final (do_download disk_full download_job)) = Error \<and>
   status (final (do_transcribe disk_full transcribe_job)) = Error \<and>
   status (final (app_do_transcribe disk_full transcribe_job)) = Error \<and>
   status (final (do_clip_with_template (\<lambda>overlays. []) disk_full clip_template_job)) = Error \<and>
   status (final (do_template_clip (\<lambda>t auto_y. []) disk_full template_clip_job)) = Error \<and>
   status (final (do_merge disk_full merge_job)) = Error"
  by code_simp

subsection \<open>The trim length\<close>

text \<open>
  What holds of the range check: \<open>do_clip\<close> in both variants and \<open>do_template_clip\<close> of
  \<^verbatim>\<open>app.py\<close> reject \<open>end \<le> start\<close> with \<^verbatim>\<open>invalid start/end\<close> and send nothing but the
  two snapshots; for \<open>end > start\<close>, \<open>do_clip\<close> of \<^verbatim>\<open>server.py\<close> starts ffmpeg with
  \<open>end - start\<close> after \<^verbatim>\<open>-t\<close>. \<open>do_clip\<close> of \<^verbatim>\<open>app.py\<close> does so only for a text that is
  not empty; without one it raises before it has started anything.
\<close>

lemma read_stderr_keeps:
  "\<exists>es. snd (case read_stderr n f lines st of Inl (e, st') \<Rightarrow> st' | Inr st' \<Rightarrow> st') = snd st @ es"
proof (induction lines arbitrary: st)
  case Nil
  show ?case by simp
next
  case (Cons line lines)
  show ?case
  proof (cases "f line")
    case None
    with Cons [of st] show ?thesis by simp
  next
    case (Some v)
    show ?thesis
    proof (cases v)
      case (Inl e)
      with Some show ?thesis by simp
    next
      case (Inr p)
      with Some Cons [of "seq [set_progress p, emit_progress n, push_job_update] st"]
      show ?thesis by (auto simp: steps)
    qed
  qed
qed

lemma ffmpeg_run_keeps: "\<exists>es. snd (ffmpeg_run w n f res sid st) = snd st @ es"
proof -
  from read_stderr_keeps [of n f "stderr_lines w" st] obtain es where
    es: "snd (case read_stderr n f (stderr_lines w) st of Inl (e, st') \<Rightarrow> st' | Inr st' \<Rightarrow> st')
           = snd st @ es" ..
  show ?thesis
  proof (cases "read_stderr n f (stderr_lines w) st")
    case (Inl x)
    with es show ?thesis
      by (cases x) (simp add: ffmpeg_run_def ffmpeg_try_def steps)
  next
    case (Inr st1)
    with es show ?thesis
      by (cases st1)
         (simp add: ffmpeg_run_def ffmpeg_try_def session_copy_def steps split: option.splits)
  qed
qed

lemma clip_rejects_empty_range:
  assumes "input_exists w" "cm_end (meta j) \<le> cm_start (meta j)"
  shows "status (final (do_clip w j)) = Error \<and>
         error (final (do_clip w j)) = Some ''invalid start/end'' \<and>
         events (do_clip w j) = [Job_update (j\<lparr>status := Running\<rparr>), Job_update (final (do_clip w j))] \<and>
         status (final (app_do_clip w j)) = Error \<and>
         error (final (app_do_clip w j)) = Some ''invalid start/end'' \<and>
         events (app_do_clip w j) = [Job_update (j\<lparr>status := Running\<rparr>), Job_update (final (app_do_clip w j))]"
  using assms by (simp add: do_clip_def app_do_clip_def Let_def returned_def steps)

lemma template_clip_rejects_empty_range:
  assumes "input_exists w" "tcm_end (meta j) \<le> tcm_start (meta j)"
  shows "status (final (do_template_clip dr w j)) = Error \<and>
         error (final (do_template_clip dr w j)) = Some ''invalid start/end'' \<and>
         events (do_template_clip dr w j)
           = [Job_update (j\<lparr>status := Running\<rparr>), Job_update (final (do_template_clip dr w j))]"
  using assms by (simp add: do_template_clip_def Let_def returned_def steps)

lemma clip_trim_length:
  assumes "input_exists w" "cm_start (meta j) < cm_end (meta j)" "popen_error w = None"
  shows "\<exists>vf_arg. events (do_clip w j) ! 1 =
           Popen (ffmpeg_cmd (cm_start (meta j)) (''downloads/'' @ cm_filename (meta j))
                    (cm_end (meta j) - cm_start (meta j)) vf_arg (outpath w))"
proof -
  let ?d = "cm_end (meta j) - cm_start (meta j)"
  let ?vf = "join_comma
               ((if cm_flip (meta j) then [''hflip''] else []) @
                (if truthy (cm_text (meta j))
                 then [drawtext (or_empty (cm_text (meta j))) ''28''] else []) @
                [vertical_filter])"
  let ?cmd = "ffmpeg_cmd (cm_start (meta j)) (''downloads/'' @ cm_filename (meta j)) ?d ?vf
                (outpath w)"
  let ?st = "(j\<lparr>status := Running\<rparr>, [Job_update (j\<lparr>status := Running\<rparr>), Popen ?cmd])"
  have run: "events (do_clip w j) =
      snd (ffmpeg_run w ''clip_progress'' (\<lambda>line. line_percent line ?d)
             [(''clip_file'', outpath w)] (cm_session_id (meta j)) ?st)"
    using assms by (simp add: do_clip_def Let_def returned_def steps)
  obtain es where "events (do_clip w j) = snd ?st @ es"
    unfolding run using ffmpeg_run_keeps by blast
  then have "events (do_clip w j) ! 1 = Popen ?cmd"
    by simp
  then show ?thesis
    by blast
qed

lemma trim_length_argument:
  "ffmpeg_cmd start input_path duration vf_arg out ! 6 = Str ''-t'' \<and>
   ffmpeg_cmd start input_path duration vf_arg out ! 7 = Num duration"
  by (simp add: ffmpeg_cmd_def)

lemma app_clip_without_text:
  assumes "input_exists w" "cm_start (meta j) < cm_end (meta j)" "\<not> truthy (cm_text (meta j))"
  shows "raised (app_do_clip w j) = Some (unbound_local ''cmd'') \<and>
         events (app_do_clip w j) = [Job_update (j\<lparr>status := Running\<rparr>)]"
  using assms by (simp add: app_do_clip_def Let_def escaped_def steps)

text \<open>
  Claim C2 at a failing input: a template-clip job of \<^verbatim>\<open>server.py\<close> whose template has
  \<open>start = 5\<close> and \<open>duration = 0\<close>, hence \<open>end = start\<close>, and whose input file exists.
  The handler starts ffmpeg with \<^verbatim>\<open>-t 0\<close> and, ffmpeg exiting with 0, finishes the job;
  no validation error is recorded.
\<close>

theorem template_clip_empty_range_runs:
  "events (do_clip_with_template (\<lambda>overlays. []) calm empty_range_job) ! 1
     = Popen (ffmpeg_cmd 5 ''downloads/v.mp4'' 0 (''scale=1080:1920,'' @ vertical_filter)
                ''clips/v/out.mp4'') \<and>
   status (final (do_clip_with_template (\<lambda>overlays. []) calm empty_range_job)) = Finished \<and>
   error (final (do_clip_with_template (\<lambda>overlays. []) calm empty_range_job)) = None"
  by code_simp

subsection \<open>The workers\<close>

lemma settle_raised:
  "raised r = Some e \<Longrightarrow>
   status (fst (settle r)) = Error \<and> error (fst (settle r)) = Some e"
  by (simp add: settle_def seq_def set_status_def set_error_def push_job_update_def
        log_event_def)

lemma settle_returned: "raised r = None \<Longrightarrow> fst (settle r) = final r"
  by (simp add: settle_def)

lemma unknown_kind_settled:
  "status (fst (settle (unknown_kind j))) = Error \<and>
   error (fst (settle (unknown_kind j))) = Some (''unknown job kind: '' @ kind j)"
  by (simp add: settle_def unknown_kind_def returned_def seq_def set_status_def set_error_def
        push_job_update_def log_event_def)

text \<open>
  Every id on the queue names a job: a submission creates the job before it queues the
  id, and a worker removes no entry.
\<close>

lemma submit_queues_a_job:
  assumes "set q \<subseteq> dom (fst s)"
  shows "set (snd (submit k m uuid (s, q))) \<subseteq> dom (fst (fst (submit k m uuid (s, q))))"
  using assms by (auto simp: submit_def create_job_def Let_def)

lemma workers_keep_jobs:
  "dom (fst s) \<subseteq> dom (fst (job_worker_step hs job_id s))"
  "dom (fst s) \<subseteq> dom (fst (worker_loop_step ahs job_id s))"
  by (auto simp: job_worker_step_def worker_loop_step_def Let_def split: option.splits)

text \<open>
  Claim C6. A dequeued id that names a job of the table (every id on the queue does: an
  id is put there right after \<open>create_job\<close>, and no entry is ever removed) is handled: for
  a known kind the worker runs the handler of that kind, and the entry afterwards is what
  the handler left, with status \<open>Error\<close> and the exception's message if the handler raised;
  for any other kind the entry gets status \<open>Error\<close> and a message naming the kind. No other
  entry changes, the table keeps its ids, and the worker goes on with the rest of the
  queue whatever the handler did. This holds for \<open>job_worker\<close> of \<^verbatim>\<open>server.py\<close> and for
  \<open>worker_loop\<close> of \<^verbatim>\<open>app.py\<close>.
\<close>

theorem worker_handles_every_job:
  assumes "fst s job_id = Some j"
  shows
    "(kind j = ''download'' \<longrightarrow>
        fst (job_worker_step hs job_id s) job_id = Some (fst (settle (h_download hs j)))) \<and>
     (kind j = ''transcribe'' \<longrightarrow>
        fst (job_worker_step hs job_id s) job_id = Some (fst (settle (h_transcribe hs j)))) \<and>
     (kind j = ''clip'' \<longrightarrow>
        fst (job_worker_step hs job_id s) job_id = Some (fst (settle (h_clip hs j)))) \<and>
     (kind j = ''clip_template'' \<longrightarrow>
        fst (job_worker_step hs job_id s) job_id
          = Some (fst (settle (h_clip_with_template hs j)))) \<and>
     (kind j \<notin> {''download'', ''transcribe'', ''clip'', ''clip_template''} \<longrightarrow>
        map_option status (fst (job_worker_step hs job_id s) job_id) = Some Error \<and>
        map_option error (fst (job_worker_step hs job_id s) job_id)
          = Some (Some (''unknown job kind: '' @ kind j))) \<and>
     (kind j = ''download'' \<longrightarrow>
        fst (worker_loop_step ahs job_id s) job_id = Some (fst (settle (a_download ahs j)))) \<and>
     (kind j = ''transcribe'' \<longrightarrow>
        fst (worker_loop_step ahs job_id s) job_id
          = Some (fst (settle (a_transcribe ahs j)))) \<and>
     (kind j = ''clip'' \<longrightarrow>
        fst (worker_loop_step ahs job_id s) job_id = Some (fst (settle (a_clip ahs j)))) \<and>
     (kind j = ''template_clip'' \<longrightarrow>
        fst (worker_loop_step ahs job_id s) job_id
          = Some (fst (settle (a_template_clip ahs j)))) \<and>
     (kind j = ''merge'' \<longrightarrow>
        fst (worker_loop_step ahs job_id s) job_id = Some (fst (settle (a_merge ahs j)))) \<and>
     (kind j \<notin> {''download'', ''transcribe'', ''clip'', ''template_clip'', ''merge''} \<longrightarrow>
        map_option status (fst (worker_loop_step ahs job_id s) job_id) = Some Error \<and>
        map_option error (fst (worker_loop_step ahs job_id s) job_id)
          = Some (Some (''unknown job kind: '' @ kind j))) \<and>
     (\<forall>r e. raised r = Some e \<longrightarrow>
        status (fst (settle r)) = Error \<and> error (fst (settle r)) = Some e) \<and>
     (\<forall>r. raised r = None \<longrightarrow> fst (settle r) = final r) \<and>
     (\<forall>i. i \<noteq> job_id \<longrightarrow>
        fst (job_worker_step hs job_id s) i = fst s i \<and>
        fst (worker_loop_step ahs job_id s) i = fst s i) \<and>
     dom (fst (job_worker_step hs job_id s)) = dom (fst s) \<and>
     dom (fst (worker_loop_step ahs job_id s)) = dom (fst s) \<and>
     job_worker hs (job_id # queue) s = job_worker hs queue (job_worker_step hs job_id s) \<and>
     worker_loop ahs (job_id # queue) s = worker_loop ahs queue (worker_loop_step ahs job_id s)"
proof -
  have server: "fst (job_worker_step hs job_id s) =
      (fst s)(job_id \<mapsto> fst (settle
         (if kind j = ''download'' then h_download hs j
          else if kind j = ''transcribe'' then h_transcribe hs j
          else if kind j = ''clip'' then h_clip hs j
          else if kind j = ''clip_template'' then h_clip_with_template hs j
          else unknown_kind j)))"
    using assms by (simp add: job_worker_step_def Let_def)
  have app: "fst (worker_loop_step ahs job_id s) =
      (fst s)(job_id \<mapsto> fst (settle
         (if kind j = ''download'' then a_download ahs j
          else if kind j = ''transcribe'' then a_transcribe ahs j
          else if kind j = ''clip'' then a_clip ahs j
          else if kind j = ''template_clip'' then a_template_clip ahs j
          else if kind j = ''merge'' then a_merge ahs j
          else unknown_kind j)))"
    using assms by (simp add: worker_loop_step_def Let_def)
  have doms: "dom (fst (job_worker_step hs job_id s)) = dom (fst s)"
    "dom (fst (worker_loop_step ahs job_id s)) = dom (fst s)"
    using assms by (auto simp: server app)
  show ?thesis
    unfolding server app
    using doms [unfolded server app]
    by (simp add: unknown_kind_settled settle_raised settle_returned)
qed

text \<open>
  A queue of two ids over a table of two jobs, where ffmpeg is not installed: the job of
  the unknown kind is marked, the clip handler raises and the worker records it, and the
  queue is worked off.
\<close>

theorem worker_handles_every_job_witness:
  "map_option status (fst (job_worker (clip_handlers no_ffmpeg) [''job-9'', ''job-1''] two_jobs)
      ''job-9'') = Some Error \<and>
   map_option error (fst (job_worker (clip_handlers no_ffmpeg) [''job-9'', ''job-1''] two_jobs)
      ''job-9'') = Some (Some ''unknown job kind: resize'') \<and>
   map_option status (fst (job_worker (clip_handlers no_ffmpeg) [''job-9'', ''job-1''] two_jobs)
      ''job-1'') = Some Error \<and>
   map_option error (fst (job_worker (clip_handlers no_ffmpeg) [''job-9'', ''job-1''] two_jobs)
      ''job-1'') = Some (Some ''[Errno 2] No such file or directory: ffmpeg'')"
proof -
  let ?hs = "clip_handlers no_ffmpeg"
  let ?j9 = "clip_job\<lparr>ident := ''job-9'', kind := ''resize''\<rparr>"
  let ?s1 = "job_worker_step ?hs ''job-9'' two_jobs"
  let ?s2 = "job_worker_step ?hs ''job-1'' ?s1"
  have j9: "fst two_jobs ''job-9'' = Some ?j9"
    by (simp add: two_jobs_def)
  have k9: "kind ?j9 \<notin> {''download'', ''transcribe'', ''clip'', ''clip_template''}"
    by simp
  have ne: "''job-1'' \<noteq> ''job-9''" "''job-9'' \<noteq> ''job-1''"
    by simp_all
  note w9 = worker_handles_every_job [OF j9, of ?hs "app_clip_handlers no_ffmpeg" "[''job-1'']"]
  note a = w9 [THEN conjunct2, THEN conjunct2, THEN conjunct2, THEN conjunct2, THEN conjunct1, THEN mp, OF k9]
  note f9 = w9 [THEN conjunct2, THEN conjunct2, THEN conjunct2, THEN conjunct2, THEN conjunct2, THEN conjunct2, THEN conjunct2, THEN conjunct2, THEN conjunct2, THEN conjunct2, THEN conjunct2, THEN conjunct2, THEN conjunct2, THEN conjunct1, THEN spec, THEN mp, OF ne(1), THEN conjunct1]
  have j1: "fst ?s1 ''job-1'' = Some clip_job"
    unfolding f9 by (simp add: two_jobs_def)
  have k1: "kind clip_job = ''clip''"
    by (simp add: clip_job_def new_job_def)
  note w1 = worker_handles_every_job [OF j1, of ?hs "app_clip_handlers no_ffmpeg" "[]"]
  note b = w1 [THEN conjunct2, THEN conjunct2, THEN conjunct1, THEN mp, OF k1]
  note b9 = w1 [THEN conjunct2, THEN conjunct2, THEN conjunct2, THEN conjunct2, THEN conjunct2, THEN conjunct2, THEN conjunct2, THEN conjunct2, THEN conjunct2, THEN conjunct2, THEN conjunct2, THEN conjunct2, THEN conjunct2, THEN conjunct1, THEN spec, THEN mp, OF ne(2), THEN conjunct1]
  have r: "raised (h_clip ?hs clip_job) = Some ''[Errno 2] No such file or directory: ffmpeg''"
    unfolding clip_handlers_def by code_simp
  note c = w1 [THEN conjunct2, THEN conjunct2, THEN conjunct2, THEN conjunct2, THEN conjunct2, THEN conjunct2, THEN conjunct2, THEN conjunct2, THEN conjunct2, THEN conjunct2, THEN conjunct2, THEN conjunct1, THEN spec, THEN spec, THEN mp, OF r]
  have run: "job_worker ?hs [''job-9'', ''job-1''] two_jobs = ?s2"
    by simp
  show ?thesis
    unfolding run b b9 using a c by simp
qed

subsection \<open>The template store\<close>

lemma heap_extends_refl: "heap_extends h h"
  by (simp add: heap_extends_def)

lemma heap_extends_trans: "heap_extends h h' \<Longrightarrow> heap_extends h' h'' \<Longrightarrow> heap_extends h h''"
  by (auto simp: heap_extends_def)

lemma heap_extends_deref: "heap_extends h h' \<Longrightarrow> a < length h \<Longrightarrow> deref h' a = deref h a"
  by (auto simp: heap_extends_def deref_def)

lemma length_override: "length (override key custom t h) = length h"
  by (simp add: override_def split: option.splits obj.splits)

lemma nth_override: "a \<noteq> t \<Longrightarrow> override key custom t h ! a = h ! a"
  by (simp add: override_def split: option.splits obj.splits)

lemma overrides_keep:
  assumes "\<forall>f\<in>set steps. \<forall>h. length (f h) = length h \<and> (\<forall>a. a \<noteq> t \<longrightarrow> f h ! a = h ! a)"
  shows "length (seq steps h) = length h \<and> (\<forall>a. a \<noteq> t \<longrightarrow> seq steps h ! a = h ! a)"
  using assms by (induction steps arbitrary: h) (simp_all add: seq_def)

lemma api_clip_with_template_heap:
  "heap_extends (sv_heap s) (sv_heap (snd (api_clip_with_template rq uuid s)))"
proof (cases "\<not> truthy (rq_filename rq) \<or> \<not> truthy (rq_template_name rq)")
  case True
  then show ?thesis
    by (simp add: api_clip_with_template_def heap_extends_refl)
next
  case ok: False
  show ?thesis
  proof (cases "sv_templates s (or_empty (rq_template_name rq))")
    case None
    with ok show ?thesis
      by (simp add: api_clip_with_template_def heap_extends_refl)
  next
    case (Some a)
    let ?t = "length (sv_heap s)"
    let ?h0 = "sv_heap s @ [deref (sv_heap s) a]"
    let ?steps = "[override ''overlays'' (rq_custom_overlays rq) ?t,
                   override ''start'' (rq_custom_start rq) ?t,
                   override ''duration'' (rq_custom_duration rq) ?t,
                   override ''output_name'' (rq_custom_output_name rq) ?t,
                   override ''resolution'' (rq_custom_resolution rq) ?t,
                   override ''flip'' (rq_custom_flip rq) ?t]"
    have keep: "length (seq ?steps ?h0) = length ?h0 \<and>
                (\<forall>a. a \<noteq> ?t \<longrightarrow> seq ?steps ?h0 ! a = ?h0 ! a)"
      by (rule overrides_keep) (simp add: length_override nth_override)
    have "sv_heap (snd (api_clip_with_template rq uuid s)) = seq ?steps ?h0"
      using ok Some by (simp add: api_clip_with_template_def dict_copy_def Let_def)
    with keep show ?thesis
      by (simp add: heap_extends_def nth_append)
  qed
qed

lemma create_template_heap:
  "heap_extends (sv_heap s) (sv_heap (snd (create_template template_name template_data s)))"
  by (auto simp: create_template_def save_template_def heap_extends_def nth_append
        split: option.splits)

lemma serve_heap: "heap_extends (sv_heap s) (sv_heap (serve op s))"
  by (cases op) (simp_all add: api_clip_with_template_heap create_template_heap)

lemma serve_all_heap: "heap_extends (sv_heap s) (sv_heap (serve_all ops s))"
  unfolding serve_all_def
proof (induction ops arbitrary: s)
  case Nil
  show ?case by (simp add: heap_extends_refl)
next
  case (Cons op ops)
  show ?case
    using heap_extends_trans [OF serve_heap Cons.IH] by simp
qed

text \<open>
  Claim C9. A submission of a template clip that is accepted leaves \<open>templates\<close> as it
  was and changes no object that was on the heap, hence neither the stored template nor
  anything it refers to: the overrides are written to a copy, a new object, and that
  object is the template of the new job. Whatever requests are served later, upserts
  under the same name among them, every object that exists after the submission stays as
  it is, the template the job has captured included.
\<close>

theorem template_copy_is_private:
  assumes "api_clip_with_template rq uuid s = (Job_id jid, s')"
  shows
    "jid = uuid \<and>
     sv_templates s' = sv_templates s \<and>
     heap_extends (sv_heap s) (sv_heap s') \<and>
     map_option (\<lambda>j. rm_template (meta j)) (sv_jobs s' uuid) = Some (length (sv_heap s)) \<and>
     length (sv_heap s) < length (sv_heap s') \<and>
     (\<forall>ops. heap_extends (sv_heap s') (sv_heap (serve_all ops s')) \<and>
            deref (sv_heap (serve_all ops s')) (length (sv_heap s))
              = deref (sv_heap s') (length (sv_heap s)))"
proof -
  from assms have ok: "\<not> (\<not> truthy (rq_filename rq) \<or> \<not> truthy (rq_template_name rq))"
    by (auto simp: api_clip_with_template_def split: if_splits)
  from assms ok obtain a where a: "sv_templates s (or_empty (rq_template_name rq)) = Some a"
    by (cases "sv_templates s (or_empty (rq_template_name rq))")
       (auto simp: api_clip_with_template_def)
  have s': "s' = snd (api_clip_with_template rq uuid s)"
    using assms by simp
  have ext: "heap_extends (sv_heap s) (sv_heap s')"
    unfolding s' by (rule api_clip_with_template_heap)
  let ?t = "length (sv_heap s)"
  let ?h0 = "sv_heap s @ [deref (sv_heap s) a]"
  let ?steps = "[override ''overlays'' (rq_custom_overlays rq) ?t,
                 override ''start'' (rq_custom_start rq) ?t,
                 override ''duration'' (rq_custom_duration rq) ?t,
                 override ''output_name'' (rq_custom_output_name rq) ?t,
                 override ''resolution'' (rq_custom_resolution rq) ?t,
                 override ''flip'' (rq_custom_flip rq) ?t]"
  have "length (seq ?steps ?h0) = length ?h0 \<and>
        (\<forall>a. a \<noteq> ?t \<longrightarrow> seq ?steps ?h0 ! a = ?h0 ! a)"
    by (rule overrides_keep) (simp add: length_override nth_override)
  moreover have "sv_heap s' = seq ?steps ?h0"
    using assms ok a by (auto simp: api_clip_with_template_def dict_copy_def Let_def)
  ultimately have len: "length (sv_heap s) < length (sv_heap s')"
    by simp
  have later: "heap_extends (sv_heap s') (sv_heap (serve_all ops s')) \<and>
               deref (sv_heap (serve_all ops s')) ?t = deref (sv_heap s') ?t" for ops
    using serve_all_heap [of s' ops] heap_extends_deref [OF _ len] by blast
  have "jid = uuid" "sv_templates s' = sv_templates s"
    "map_option (\<lambda>j. rm_template (meta j)) (sv_jobs s' uuid) = Some ?t"
    using assms ok a
    by (auto simp: api_clip_with_template_def dict_copy_def Let_def create_job_def new_job_def)
  with ext len later show ?thesis
    by blast
qed

text \<open>
  A store with the template \<open>intro\<close>, a submission that overrides its start, then an upsert
  of \<open>intro\<close>: the stored template is untouched by the submission, and the job keeps the
  template it captured, start 7 and the overlays of the old \<open>intro\<close>, after the upsert.
\<close>

theorem template_copy_is_private_witness:
  "stored_template (snd (api_clip_with_template start_at_7 ''job-1'' one_template)) ''intro''
     = Some (Dict [(''start'', JNum 0), (''overlays'', JRef 1)]) \<and>
   job_template
     (serve_all [Upsert (Some ''intro'') (Some [(''start'', JNum 99)])]
        (snd (api_clip_with_template start_at_7 ''job-1'' one_template))) ''job-1''
     = Some (Dict [(''start'', JNum 7), (''overlays'', JRef 1)]) \<and>
   stored_template
     (serve_all [Upsert (Some ''intro'') (Some [(''start'', JNum 99)])]
        (snd (api_clip_with_template start_at_7 ''job-1'' one_template))) ''intro''
     = Some (Dict [(''start'', JNum 99)])"
proof -
  let ?s1 = "snd (api_clip_with_template start_at_7 ''job-1'' one_template)"
  let ?ops = "[Upsert (Some ''intro'') (Some [(''start'', JNum 99)])]"
  have "fst (api_clip_with_template start_at_7 ''job-1'' one_template) = Job_id ''job-1''"
    by code_simp
  then have eq: "api_clip_with_template start_at_7 ''job-1'' one_template = (Job_id ''job-1'', ?s1)"
    by (simp add: prod_eq_iff)
  note t = template_copy_is_private [OF eq]
  have len: "length (sv_heap one_template) = 2"
    by (simp add: one_template_def)
  have kept: "deref (sv_heap (serve_all ?ops ?s1)) 2 = deref (sv_heap ?s1) 2"
    using t len by simp
  have jobs_kept: "sv_jobs (serve_all ?ops ?s1) ''job-1'' = sv_jobs ?s1 ''job-1''"
    by code_simp
  have addr: "map_option (\<lambda>j. rm_template (meta j)) (sv_jobs ?s1 ''job-1'') = Some 2"
    using t len by simp
  have captured: "deref (sv_heap ?s1) 2 = Dict [(''start'', JNum 7), (''overlays'', JRef 1)]"
    by code_simp
  have "job_template (serve_all ?ops ?s1) ''job-1''
          = Some (Dict [(''start'', JNum 7), (''overlays'', JRef 1)])"
    using addr kept captured jobs_kept by (auto simp: job_template_def)
  moreover have "stored_template ?s1 ''intro''
          = Some (Dict [(''start'', JNum 0), (''overlays'', JRef 1)])"
    by code_simp
  moreover have "stored_template (serve_all ?ops ?s1) ''intro'' = Some (Dict [(''start'', JNum 99)])"
    by code_simp
  ultimately show ?thesis
    by simp
qed

subsection \<open>Session cleanup\<close>

lemma try_remove_filter: "try_remove n d = filter (\<lambda>e. e \<noteq> (n, File)) d"
proof (cases "(n, File) \<in> set d")
  case True
  then show ?thesis by (simp add: try_remove_def os_remove_def)
next
  case False
  then have "filter (\<lambda>e. e \<noteq> (n, File)) d = d"
    by (auto simp: filter_id_conv)
  with False show ?thesis by (simp add: try_remove_def os_remove_def)
qed

lemma cleanup_entry_same: "cleanup_entry dc dv = cleanup_entry_immediate dc dv"
  by (auto simp: cleanup_entry_def cleanup_entry_immediate_def fun_eq_iff)

lemma cleanup_entry_filter: "cleanup_entry_immediate dc dv n d = filter (kept dc dv [n]) d"
  by (auto simp: cleanup_entry_immediate_def try_remove_filter kept_def filter_id_conv
        intro!: filter_cong)

lemma fold_cleanup_filter:
  "fold (cleanup_entry_immediate dc dv) ns d = filter (kept dc dv ns) d"
proof (induction ns arbitrary: d)
  case Nil
  show ?case by (simp add: kept_def)
next
  case (Cons n ns)
  have "filter (kept dc dv ns) (filter (kept dc dv [n]) d) = filter (kept dc dv (n # ns)) d"
    by (auto simp: kept_def intro!: filter_cong)
  with Cons show ?case by (simp add: cleanup_entry_filter)
qed

lemma session_entries_remove_if_empty: "session_entries (remove_if_empty sid d fs) sid = set d"
  by (simp add: session_entries_def remove_if_empty_def listdir_def)


lemma cleanup_session_filter:
  "fs sid = Some d \<Longrightarrow>
   cleanup_session fs sid dc dv =
     (True, remove_if_empty sid (filter (kept dc dv (listdir d)) d) fs)"
  by (simp add: cleanup_session_def cleanup_entry_same fold_cleanup_filter)

lemma cleanup_session_immediate_filter:
  "fs sid = Some d \<Longrightarrow>
   cleanup_session_immediate fs sid dc dv =
     (True, remove_if_empty sid (filter (kept dc dv (listdir d)) d) fs)"
  by (simp add: cleanup_session_immediate_def fold_cleanup_filter)

lemma kept_file_iff:
  "(n, File) \<in> set d \<Longrightarrow>
   kept dc dv (listdir d) (n, File) \<longleftrightarrow> endswith n ''.mp4'' \<and> \<not> (dc \<or> dv)"
  by (force simp: kept_def listdir_def)




text \<open>
  Claim C10. For an existing session folder, cleanup returns \<open>True\<close> whatever the flags,
  and a regular file of the folder is still there afterwards exactly when its name ends in
  \<^verbatim>\<open>.mp4\<close> and neither flag is set: with both flags false every other file is deleted, and
  an \<^verbatim>\<open>.mp4\<close> file is deleted iff \<open>delete_clips\<close> or \<open>delete_video\<close> holds, the two flags
  never being told apart. Both implementations.
\<close>

theorem cleanup_flags_per_file:
  assumes "fs sid = Some d"
  shows "fst (cleanup_session fs sid dc dv) \<and> fst (cleanup_session_immediate fs sid dc dv) \<and>
    (\<forall>name. (name, File) \<in> set d \<longrightarrow>
       ((name, File) \<in> session_entries (snd (cleanup_session fs sid dc dv)) sid
          \<longleftrightarrow> endswith name ''.mp4'' \<and> \<not> (dc \<or> dv)) \<and>
       ((name, File) \<in> session_entries (snd (cleanup_session_immediate fs sid dc dv)) sid
          \<longleftrightarrow> endswith name ''.mp4'' \<and> \<not> (dc \<or> dv)))"
  using assms
  by (simp add: cleanup_session_filter cleanup_session_immediate_filter
        session_entries_remove_if_empty kept_file_iff)

theorem cleanup_flags_per_file_witness:
  "fst (cleanup_session
          (Map.empty(''s1'' \<mapsto> [(''a.mp4'', File), (''b.txt'', File), (''c.bin'', File)]))
          ''s1'' False False) \<and>
   snd (cleanup_session
          (Map.empty(''s1'' \<mapsto> [(''a.mp4'', File), (''b.txt'', File), (''c.bin'', File)]))
          ''s1'' False False) ''s1''
     = Some [(''a.mp4'', File)]"
  using cleanup_flags_per_file
          [of "Map.empty(''s1'' \<mapsto> [(''a.mp4'', File), (''b.txt'', File), (''c.bin'', File)])"
              "''s1''" "[(''a.mp4'', File), (''b.txt'', File), (''c.bin'', File)]" False False]
  by (simp add: cleanup_session_def remove_if_empty_def listdir_def cleanup_entry_def
        try_remove_def os_remove_def endswith_def)

end
